theory Spec2Isabelle
  imports Main "HOL-Library.Word"
begin

section \<open>Values shared by all operations\<close>

text \<open>
  The package \<^verbatim>\<open>k8sutil\<close> (file \<^verbatim>\<open>pkg/k8sutil/k8sutil.go\<close>) drives a Kubernetes
  cluster through the interface \<^verbatim>\<open>KubeInterface\<close> and a REST client. Both are
  collaborators of the package, so the model takes them as parameters: a record of
  operations over a machine state. Everything the package does that a caller can
  observe is written into a trace: the calls it issues, the lines it logs, the pauses
  it takes.
\<close>

type_synonym int32 = "32 word"

text \<open>
  A Go \<^verbatim>\<open>error\<close>. \<^verbatim>\<open>k8serrors.IsNotFound\<close> tells the not-found status from every
  other error.
\<close>

datatype error = NotFound string | OtherError string

fun IsNotFound :: "error \<Rightarrow> bool" where
  "IsNotFound (NotFound _) = True"
| "IsNotFound (OtherError _) = False"

text \<open>
  A run ends by returning, or by a panic: \<^verbatim>\<open>panic(err)\<close>, the dereference of a nil
  pointer, or a type assertion on a value of another dynamic type.
\<close>

datatype panic = PanicError error | NilPointerDereference | TypeAssertionFailed

datatype 'a outcome = Returned 'a | Panicked panic

text \<open>
  A \<^verbatim>\<open>*int32\<close> is an address or nil. The cells live in a heap, a list indexed by
  address; \<^verbatim>\<open>new(int32)\<close> takes the next address and stores zero there. Two pointers
  are equal in Go when they are the same address, whatever the cells hold.
\<close>

type_synonym int32ptr = "nat option"

type_synonym heap = "int32 list"

fun deref :: "heap \<Rightarrow> int32ptr \<Rightarrow> int32 option" where
  "deref h None = None"
| "deref h (Some a) = (if a < length h then Some (h ! a) else None)"

definition new_int32 :: "heap \<Rightarrow> int32ptr \<times> heap" where
  "new_int32 h = (Some (length h), h @ [0])"

section \<open>The Kubernetes objects the package builds and reads\<close>

text \<open>
  Each record holds the fields the source names. Go string types
  (\<^verbatim>\<open>v1.Protocol\<close>, \<^verbatim>\<open>v1.ServiceType\<close>) are strings; a pointer to a struct is an
  option.
\<close>

record ObjectMeta =
  Name :: string
  Labels :: "string \<rightharpoonup> string"

datatype IntOrString = IntVal int32 | StrVal string

definition FromInt :: "int \<Rightarrow> IntOrString" where
  "FromInt v = IntVal (word_of_int v)"

definition ProtocolTCP :: string where
  "ProtocolTCP = ''TCP''"

definition ProtocolUDP :: string where
  "ProtocolUDP = ''UDP''"

definition ServiceTypeClusterIP :: string where
  "ServiceTypeClusterIP = ''ClusterIP''"

definition ServiceTypeLoadBalancer :: string where
  "ServiceTypeLoadBalancer = ''LoadBalancer''"

record ServicePort =
  Name :: string
  Port :: int32
  TargetPort :: IntOrString
  Protocol :: string

record ServiceSpec =
  Selector :: "string \<rightharpoonup> string"
  Ports :: "ServicePort list"
  Type :: string
  LoadBalancerSourceRanges :: "string list"

record Service =
  ObjectMeta :: ObjectMeta
  Spec :: ServiceSpec

record APIVersion =
  Name :: string

record ThirdPartyResource =
  ObjectMeta :: ObjectMeta
  Versions :: "APIVersion list"
  Description :: string

record ObjectFieldSelector =
  APIVersion :: string
  FieldPath :: string

record LocalObjectReference =
  Name :: string

record SecretKeySelector =
  LocalObjectReference :: LocalObjectReference
  Key :: string

record EnvVarSource =
  FieldRef :: "ObjectFieldSelector option"
  SecretKeyRef :: "SecretKeySelector option"

record EnvVar =
  Name :: string
  Value :: string
  ValueFrom :: "EnvVarSource option"

record ContainerPort =
  Name :: string
  ContainerPort :: int32
  Protocol :: string

record Container =
  Name :: string
  Image :: string
  Env :: "EnvVar list"
  Command :: "string list"
  Ports :: "ContainerPort list"

record PodSpec =
  Containers :: "Container list"

record PodTemplateSpec =
  ObjectMeta :: ObjectMeta
  Spec :: PodSpec

record DeploymentSpec =
  Replicas :: int32ptr
  Template :: PodTemplateSpec

record Deployment =
  ObjectMeta :: ObjectMeta
  Spec :: DeploymentSpec

record ReplicaSet =
  ObjectMeta :: ObjectMeta

record ReplicaSetList =
  Items :: "ReplicaSet list"

text \<open>
  The package \<^verbatim>\<open>tpr\<close> declares \<^verbatim>\<open>KongCluster\<close> and \<^verbatim>\<open>KongClusterList\<close>. This file
  uses two things of them: the field \<^verbatim>\<open>Type\<close> of a cluster and the field
  \<^verbatim>\<open>Items\<close> of a list. A cluster is a record with the field \<^verbatim>\<open>Type\<close> and any
  further fields (the record's extension); a list is generic in its items.
\<close>

record KongCluster =
  Type :: string

record 'c KongClusterList =
  Items :: "'c list"

section \<open>The trace\<close>

datatype logarg = S string | E error

text \<open>A call of logrus, with its format string (if any) and its arguments as passed.\<close>

datatype logcall =
    Info "logarg list"
  | Infof string "logarg list"
  | Error "logarg list"
  | Errorf string "logarg list"

datatype call =
    TprGet string
  | TprCreate ThirdPartyResource
  | SvcGet string string
  | SvcCreate string Service
  | SvcDelete string string
  | DepGet string string
  | DepCreate string Deployment
  | DepUpdate string Deployment
  | DepDelete string string
  | RsList string string
  | RsDelete string string
  | RestGet string

text \<open>\<^verbatim>\<open>Sleep n\<close> is \<^verbatim>\<open>time.Sleep(n * time.Second)\<close>.\<close>

datatype event = Call call | Log logcall | Sleep nat

section \<open>The cluster client\<close>

text \<open>
  The machine state is the Go heap and the cluster behind the client. An operation
  of the client takes the state and returns its results with the new state. A Go
  method returning \<^verbatim>\<open>(*T, error)\<close> returns a pair of options: the pointer may be
  nil and so may the error, in any combination.
\<close>

record 'w machine =
  heap :: heap
  cluster :: 'w

record 'w KubeInterface =
  ThirdPartyResourcesGet ::
    "string \<Rightarrow> 'w machine \<Rightarrow> (ThirdPartyResource option \<times> error option) \<times> 'w machine"
  ThirdPartyResourcesCreate ::
    "ThirdPartyResource \<Rightarrow> 'w machine \<Rightarrow> (ThirdPartyResource option \<times> error option) \<times> 'w machine"
  ServicesGet ::
    "string \<Rightarrow> string \<Rightarrow> 'w machine \<Rightarrow> (Service option \<times> error option) \<times> 'w machine"
  ServicesCreate ::
    "string \<Rightarrow> Service \<Rightarrow> 'w machine \<Rightarrow> (Service option \<times> error option) \<times> 'w machine"
  ServicesDelete ::
    "string \<Rightarrow> string \<Rightarrow> 'w machine \<Rightarrow> error option \<times> 'w machine"
  DeploymentsGet ::
    "string \<Rightarrow> string \<Rightarrow> 'w machine \<Rightarrow> (Deployment option \<times> error option) \<times> 'w machine"
  DeploymentsCreate ::
    "string \<Rightarrow> Deployment \<Rightarrow> 'w machine \<Rightarrow> (Deployment option \<times> error option) \<times> 'w machine"
  DeploymentsUpdate ::
    "string \<Rightarrow> Deployment \<Rightarrow> 'w machine \<Rightarrow> (Deployment option \<times> error option) \<times> 'w machine"
  DeploymentsDelete ::
    "string \<Rightarrow> string \<Rightarrow> 'w machine \<Rightarrow> error option \<times> 'w machine"
  ReplicaSetsList ::
    "string \<Rightarrow> string \<Rightarrow> 'w machine \<Rightarrow> (ReplicaSetList option \<times> error option) \<times> 'w machine"
  ReplicaSetsDelete ::
    "string \<Rightarrow> string \<Rightarrow> 'w machine \<Rightarrow> error option \<times> 'w machine"

text \<open>
  \<^verbatim>\<open>TprClient.Get().Resource(r).Do().Into(&l)\<close>: the request for resource \<^verbatim>\<open>r\<close>,
  decoded into \<^verbatim>\<open>l\<close>. It takes what \<^verbatim>\<open>l\<close> holds and returns what it holds after
  the call, with the error.
\<close>

record ('c, 'w) RESTClient =
  GetResourceInto ::
    "string \<Rightarrow> 'c KongClusterList \<Rightarrow> 'w machine \<Rightarrow> ('c KongClusterList \<times> error option) \<times> 'w machine"

record ('c, 'w) K8sutil =
  TprClient :: "('c, 'w) RESTClient"
  Kclient :: "'w KubeInterface"
  MasterHost :: string

definition tprName :: string where
  "tprName = ''kong-cluster.enterprises.upmc.com''"

definition kongProxyServiceName :: string where
  "kongProxyServiceName = ''kong-proxy''"

definition kongAdminServiceName :: string where
  "kongAdminServiceName = ''kong-admin''"

definition kongDeploymentName :: string where
  "kongDeploymentName = ''kong''"

definition kongPostgresSecretName :: string where
  "kongPostgresSecretName = ''kong-postgres''"

section \<open>CreateKubernetesThirdPartyResource\<close>

definition kongThirdPartyResource :: ThirdPartyResource where
  "kongThirdPartyResource =
     \<lparr> ThirdPartyResource.ObjectMeta = \<lparr> ObjectMeta.Name = tprName, Labels = Map.empty \<rparr>,
       Versions = [\<lparr> APIVersion.Name = ''v1'' \<rparr>],
       Description = ''Managed kong clusters'' \<rparr>"

definition CreateKubernetesThirdPartyResource ::
  "('c, 'w) K8sutil \<Rightarrow> 'w machine \<Rightarrow> error option outcome \<times> 'w machine \<times> event list" where
  "CreateKubernetesThirdPartyResource k m =
     (case ThirdPartyResourcesGet (Kclient k) tprName m of
        ((tpr, err), m1) \<Rightarrow>
          (case err of
             Some e \<Rightarrow>
               if IsNotFound e then
                 (case ThirdPartyResourcesCreate (Kclient k) kongThirdPartyResource m1 of
                    ((_, err'), m2) \<Rightarrow>
                      (case err' of
                         Some e' \<Rightarrow>
                           (Panicked (PanicError e'), m2,
                            [Call (TprGet tprName), Call (TprCreate kongThirdPartyResource)])
                       | None \<Rightarrow>
                           (Returned None, m2,
                            [Call (TprGet tprName), Call (TprCreate kongThirdPartyResource),
                             Log (Infof ''CREATED TPR: %#v''
                               [S (ObjectMeta.Name (ThirdPartyResource.ObjectMeta kongThirdPartyResource))])])))
               else (Panicked (PanicError e), m1, [Call (TprGet tprName)])
           | None \<Rightarrow>
               (case tpr of
                  None \<Rightarrow> (Panicked NilPointerDereference, m1, [Call (TprGet tprName)])
                | Some t \<Rightarrow>
                    (Returned None, m1,
                     [Call (TprGet tprName),
                      Log (Infof ''SKIPPING: already exists %#v''
                        [S (ObjectMeta.Name (ThirdPartyResource.ObjectMeta t))])]))))"

section \<open>GetKongClusters\<close>

text \<open>
  The loop of \<^verbatim>\<open>GetKongClusters\<close>: fetch into \<^verbatim>\<open>kongList\<close>; on an error log
  twice, sleep five seconds and go round again; otherwise leave the loop. The loop
  has no bound, so the model is a partial function: \<open>None\<close> is the run that never
  leaves the loop.
\<close>

partial_function (option) GetKongClusters_loop ::
  "('c, 'w) K8sutil \<Rightarrow> 'c KongClusterList \<Rightarrow> 'w machine \<Rightarrow> event list \<Rightarrow>
     (('c list \<times> error option) \<times> 'w machine \<times> event list) option" where
  "GetKongClusters_loop k kongList m tr =
     (case GetResourceInto (TprClient k) ''KongClusters'' kongList m of
        ((kongList', err), m1) \<Rightarrow>
          (case err of
             Some e \<Rightarrow>
               GetKongClusters_loop k kongList' m1
                 (tr @ [Call (RestGet ''KongClusters''),
                        Log (Error [S ''error getting kong clusters'']),
                        Log (Error [E e]),
                        Sleep 5])
           | None \<Rightarrow>
               Some ((KongClusterList.Items kongList', None), m1,
                     tr @ [Call (RestGet ''KongClusters'')])))"

definition GetKongClusters ::
  "('c, 'w) K8sutil \<Rightarrow> 'w machine \<Rightarrow>
     (('c list \<times> error option) \<times> 'w machine \<times> event list) option" where
  "GetKongClusters k m = GetKongClusters_loop k \<lparr> KongClusterList.Items = [] \<rparr> m []"

section \<open>MonitorKongEvents\<close>

text \<open>
  The two channels \<^verbatim>\<open>MonitorKongEvents\<close> makes and returns, each as the list of
  values sent on it so far, oldest first.
\<close>

record 'c channels =
  events :: "'c list"
  errc :: "error list"

text \<open>
  An \<^verbatim>\<open>interface{}\<close> handed to a handler: a \<^verbatim>\<open>*tpr.KongCluster\<close>, or a value of
  another dynamic type, on which the type assertion panics.
\<close>

datatype 'c iface = KongClusterPtr 'c | OtherValue

definition createAddHandler ::
  "'a KongCluster_scheme iface \<Rightarrow> 'a KongCluster_scheme channels \<Rightarrow>
     panic option \<times> 'a KongCluster_scheme channels" where
  "createAddHandler obj ch =
     (case obj of
        KongClusterPtr event \<Rightarrow>
          (None, ch\<lparr> events := events ch @ [event\<lparr> KongCluster.Type := ''ADDED'' \<rparr>] \<rparr>)
      | OtherValue \<Rightarrow> (Some TypeAssertionFailed, ch))"

definition createDeleteHandler ::
  "'a KongCluster_scheme iface \<Rightarrow> 'a KongCluster_scheme channels \<Rightarrow>
     panic option \<times> 'a KongCluster_scheme channels" where
  "createDeleteHandler obj ch =
     (case obj of
        KongClusterPtr event \<Rightarrow>
          (None, ch\<lparr> events := events ch @ [event\<lparr> KongCluster.Type := ''DELETED'' \<rparr>] \<rparr>)
      | OtherValue \<Rightarrow> (Some TypeAssertionFailed, ch))"

definition updateHandler ::
  "'a KongCluster_scheme iface \<Rightarrow> 'a KongCluster_scheme iface \<Rightarrow>
     'a KongCluster_scheme channels \<Rightarrow> panic option \<times> 'a KongCluster_scheme channels" where
  "updateHandler old obj ch =
     (case obj of
        KongClusterPtr event \<Rightarrow>
          (None, ch\<lparr> events := events ch @ [event\<lparr> KongCluster.Type := ''MODIFIED'' \<rparr>] \<rparr>)
      | OtherValue \<Rightarrow> (Some TypeAssertionFailed, ch))"

text \<open>
  What the informer made by \<^verbatim>\<open>cache.NewInformer\<close> can do with the three handlers it
  is given: call \<^verbatim>\<open>AddFunc\<close>, \<^verbatim>\<open>UpdateFunc\<close> or \<^verbatim>\<open>DeleteFunc\<close>, with arguments of any
  dynamic type; when and with what it calls them is the informer's business (it
  lives outside this package) and is left open. A failure of the list or watch
  transport has no handler among the three.
\<close>

datatype 'c notification =
    OnAdd "'c iface"
  | OnUpdate "'c iface" "'c iface"
  | OnDelete "'c iface"
  | WatchFailure error

definition ResourceEventHandlerFuncs ::
  "'a KongCluster_scheme notification \<Rightarrow> 'a KongCluster_scheme channels \<Rightarrow>
     panic option \<times> 'a KongCluster_scheme channels" where
  "ResourceEventHandlerFuncs n ch =
     (case n of
        OnAdd obj \<Rightarrow> createAddHandler obj ch
      | OnUpdate old obj \<Rightarrow> updateHandler old obj ch
      | OnDelete obj \<Rightarrow> createDeleteHandler obj ch
      | WatchFailure e \<Rightarrow> (None, ch))"

text \<open>
  \<^verbatim>\<open>controller.Run(stopchan)\<close> in its goroutine: the notifications that arrive before
  the stop channel closes, handled in order. A panic in a handler ends the run.
\<close>

fun controller_Run ::
  "'a KongCluster_scheme notification list \<Rightarrow> 'a KongCluster_scheme channels \<Rightarrow>
     panic option \<times> 'a KongCluster_scheme channels" where
  "controller_Run [] ch = (None, ch)"
| "controller_Run (n # ns) ch =
     (case ResourceEventHandlerFuncs n ch of
        (Some p, ch') \<Rightarrow> (Some p, ch')
      | (None, ch') \<Rightarrow> controller_Run ns ch')"

definition MonitorKongEvents ::
  "'a KongCluster_scheme notification list \<Rightarrow> panic option \<times> 'a KongCluster_scheme channels" where
  "MonitorKongEvents ns = controller_Run ns \<lparr> events = [], errc = [] \<rparr>"

section \<open>The two services\<close>

definition kongProxyService :: Service where
  "kongProxyService =
     \<lparr> Service.ObjectMeta =
         \<lparr> ObjectMeta.Name = kongProxyServiceName,
           Labels = [''name'' \<mapsto> kongProxyServiceName] \<rparr>,
       Service.Spec =
         \<lparr> Selector = [''app'' \<mapsto> ''kong''],
           ServiceSpec.Ports =
             [\<lparr> ServicePort.Name = ''kong-proxy'', Port = 80,
                TargetPort = FromInt 8000, ServicePort.Protocol = ''TCP'' \<rparr>,
              \<lparr> ServicePort.Name = ''kong-proxy-ssl'', Port = 443,
                TargetPort = FromInt 8443, ServicePort.Protocol = ''TCP'' \<rparr>],
           ServiceSpec.Type = ServiceTypeLoadBalancer,
           LoadBalancerSourceRanges = [''0.0.0.0/0''] \<rparr> \<rparr>"

definition CreateKongProxyService ::
  "('c, 'w) K8sutil \<Rightarrow> string \<Rightarrow> 'w machine \<Rightarrow> error option outcome \<times> 'w machine \<times> event list" where
  "CreateKongProxyService k namespace m =
     (case ServicesGet (Kclient k) namespace kongProxyServiceName m of
        ((svc_ptr, err), m1) \<Rightarrow>
          (case svc_ptr of
             None \<Rightarrow>
               (Panicked NilPointerDereference, m1,
                [Call (SvcGet namespace kongProxyServiceName)])
           | Some svc \<Rightarrow>
               if length (ObjectMeta.Name (Service.ObjectMeta svc)) = 0 then
                 (case ServicesCreate (Kclient k) namespace kongProxyService m1 of
                    ((_, err'), m2) \<Rightarrow>
                      (case err' of
                         Some e' \<Rightarrow>
                           (Returned (Some e'), m2,
                            [Call (SvcGet namespace kongProxyServiceName),
                             Log (Infof ''%s not found, creating...'' [S kongProxyServiceName]),
                             Call (SvcCreate namespace kongProxyService),
                             Log (Error [S ''Could not create proxy service'', E e'])])
                       | None \<Rightarrow>
                           (Returned None, m2,
                            [Call (SvcGet namespace kongProxyServiceName),
                             Log (Infof ''%s not found, creating...'' [S kongProxyServiceName]),
                             Call (SvcCreate namespace kongProxyService)])))
               else
                 (case err of
                    Some e \<Rightarrow>
                      (Returned (Some e), m1,
                       [Call (SvcGet namespace kongProxyServiceName),
                        Log (Error [S ''Could not get proxy service! '', E e])])
                  | None \<Rightarrow>
                      (Returned None, m1, [Call (SvcGet namespace kongProxyServiceName)]))))"

definition kongAdminService :: Service where
  "kongAdminService =
     \<lparr> Service.ObjectMeta =
         \<lparr> ObjectMeta.Name = kongAdminServiceName,
           Labels = [''name'' \<mapsto> kongAdminServiceName] \<rparr>,
       Service.Spec =
         \<lparr> Selector = [''app'' \<mapsto> ''kong''],
           ServiceSpec.Ports =
             [\<lparr> ServicePort.Name = ''kong-admin'', Port = 8444,
                TargetPort = FromInt 8444, ServicePort.Protocol = ''TCP'' \<rparr>],
           ServiceSpec.Type = ServiceTypeClusterIP,
           LoadBalancerSourceRanges = [] \<rparr> \<rparr>"

definition CreateKongAdminService ::
  "('c, 'w) K8sutil \<Rightarrow> string \<Rightarrow> 'w machine \<Rightarrow> error option outcome \<times> 'w machine \<times> event list" where
  "CreateKongAdminService k namespace m =
     (case ServicesGet (Kclient k) namespace kongAdminServiceName m of
        ((svc_ptr, err), m1) \<Rightarrow>
          (case svc_ptr of
             None \<Rightarrow>
               (Panicked NilPointerDereference, m1,
                [Call (SvcGet namespace kongAdminServiceName)])
           | Some svc \<Rightarrow>
               if length (ObjectMeta.Name (Service.ObjectMeta svc)) = 0 then
                 (case ServicesCreate (Kclient k) namespace kongAdminService m1 of
                    ((_, err'), m2) \<Rightarrow>
                      (case err' of
                         Some e' \<Rightarrow>
                           (Returned (Some e'), m2,
                            [Call (SvcGet namespace kongAdminServiceName),
                             Log (Infof ''%s not found, creating...'' [S kongAdminServiceName]),
                             Call (SvcCreate namespace kongAdminService),
                             Log (Error [S ''Could not create admin service: '', E e'])])
                       | None \<Rightarrow>
                           (Returned None, m2,
                            [Call (SvcGet namespace kongAdminServiceName),
                             Log (Infof ''%s not found, creating...'' [S kongAdminServiceName]),
                             Call (SvcCreate namespace kongAdminService)])))
               else
                 (case err of
                    Some e \<Rightarrow>
                      (Returned (Some e), m1,
                       [Call (SvcGet namespace kongAdminServiceName),
                        Log (Error [S ''Could not get admin service: '', E e])])
                  | None \<Rightarrow>
                      (Returned None, m1, [Call (SvcGet namespace kongAdminServiceName)]))))"

definition DeleteProxyService ::
  "('c, 'w) K8sutil \<Rightarrow> string \<Rightarrow> 'w machine \<Rightarrow> error option outcome \<times> 'w machine \<times> event list" where
  "DeleteProxyService k namespace m =
     (case ServicesDelete (Kclient k) namespace kongProxyServiceName m of
        (err, m1) \<Rightarrow>
          (Returned err, m1,
           [Call (SvcDelete namespace kongProxyServiceName),
            (case err of
               Some e \<Rightarrow> Log (Error [S (''Could not delete service '' @ kongProxyServiceName @ '':''), E e])
             | None \<Rightarrow> Log (Infof ''Delete service: %s'' [S kongProxyServiceName]))]))"

definition DeleteAdminService ::
  "('c, 'w) K8sutil \<Rightarrow> string \<Rightarrow> 'w machine \<Rightarrow> error option outcome \<times> 'w machine \<times> event list" where
  "DeleteAdminService k namespace m =
     (case ServicesDelete (Kclient k) namespace kongAdminServiceName m of
        (err, m1) \<Rightarrow>
          (Returned err, m1,
           [Call (SvcDelete namespace kongAdminServiceName),
            (case err of
               Some e \<Rightarrow> Log (Error [S (''Could not delete service '' @ kongAdminServiceName @ '':''), E e])
             | None \<Rightarrow> Log (Infof ''Delete service: %s'' [S kongAdminServiceName]))]))"

section \<open>The deployment\<close>

definition secretEnvVar :: "string \<Rightarrow> EnvVar" where
  "secretEnvVar key =
     \<lparr> EnvVar.Name = key, Value = [],
       ValueFrom = Some
         \<lparr> FieldRef = None,
           SecretKeyRef = Some
             \<lparr> LocalObjectReference = \<lparr> LocalObjectReference.Name = kongPostgresSecretName \<rparr>,
               Key = key \<rparr> \<rparr> \<rparr>"

definition kongContainer :: "string \<Rightarrow> Container" where
  "kongContainer baseImage =
     \<lparr> Container.Name = kongDeploymentName,
       Image = baseImage,
       Env =
         [\<lparr> EnvVar.Name = ''NAMESPACE'', Value = [],
            ValueFrom = Some
              \<lparr> FieldRef = Some \<lparr> APIVersion = [], FieldPath = ''metadata.namespace'' \<rparr>,
                SecretKeyRef = None \<rparr> \<rparr>,
          secretEnvVar ''KONG_PG_USER'',
          secretEnvVar ''KONG_PG_PASSWORD'',
          secretEnvVar ''KONG_PG_HOST'',
          secretEnvVar ''KONG_PG_DATABASE'',
          \<lparr> EnvVar.Name = ''KONG_HOST_IP'', Value = [],
            ValueFrom = Some
              \<lparr> FieldRef = Some \<lparr> APIVersion = ''v1'', FieldPath = ''status.podIP'' \<rparr>,
                SecretKeyRef = None \<rparr> \<rparr>,
          \<lparr> EnvVar.Name = ''KONG_ADMIN_LISTEN'', Value = ''127.0.0.1:8001'',
            ValueFrom = None \<rparr>],
       Command =
         [''/bin/sh'', ''-c'',
          ''KONG_CLUSTER_ADVERTISE=$(KONG_HOST_IP):7946 KONG_NGINX_DAEMON='' @ [CHR 0x27] @
            ''off'' @ [CHR 0x27] @ '' kong start''],
       Container.Ports =
         [\<lparr> ContainerPort.Name = ''proxy'', ContainerPort = 8000,
            ContainerPort.Protocol = ProtocolTCP \<rparr>,
          \<lparr> ContainerPort.Name = ''proxy-ssl'', ContainerPort = 8443,
            ContainerPort.Protocol = ProtocolTCP \<rparr>,
          \<lparr> ContainerPort.Name = ''surf-tcp'', ContainerPort = 7946,
            ContainerPort.Protocol = ProtocolTCP \<rparr>,
          \<lparr> ContainerPort.Name = ''surf-udp'', ContainerPort = 7946,
            ContainerPort.Protocol = ProtocolUDP \<rparr>] \<rparr>"

definition kongDeployment :: "string \<Rightarrow> int32ptr \<Rightarrow> Deployment" where
  "kongDeployment baseImage replicas =
     \<lparr> Deployment.ObjectMeta =
         \<lparr> ObjectMeta.Name = kongDeploymentName,
           Labels = [''name'' \<mapsto> kongDeploymentName] \<rparr>,
       Deployment.Spec =
         \<lparr> Replicas = replicas,
           Template =
             \<lparr> PodTemplateSpec.ObjectMeta =
                 \<lparr> ObjectMeta.Name = [],
                   Labels = [''app'' \<mapsto> ''kong'', ''name'' \<mapsto> kongDeploymentName] \<rparr>,
               PodTemplateSpec.Spec = \<lparr> Containers = [kongContainer baseImage] \<rparr> \<rparr> \<rparr> \<rparr>"

text \<open>
  \<^verbatim>\<open>deployment.Spec.Replicas != replicas\<close> compares two values of type
  \<^verbatim>\<open>*int32\<close>: the addresses, not the cells.
\<close>

definition CreateKongDeployment ::
  "('c, 'w) K8sutil \<Rightarrow> string \<Rightarrow> int32ptr \<Rightarrow> string \<Rightarrow> 'w machine \<Rightarrow>
     error option outcome \<times> 'w machine \<times> event list" where
  "CreateKongDeployment k baseImage replicas namespace m =
     (case DeploymentsGet (Kclient k) namespace kongDeploymentName m of
        ((dep_ptr, err), m1) \<Rightarrow>
          (case dep_ptr of
             None \<Rightarrow>
               (Panicked NilPointerDereference, m1,
                [Call (DepGet namespace kongDeploymentName)])
           | Some deployment \<Rightarrow>
               if length (ObjectMeta.Name (Deployment.ObjectMeta deployment)) = 0 then
                 (case DeploymentsCreate (Kclient k) namespace
                         (kongDeployment baseImage replicas) m1 of
                    ((_, err'), m2) \<Rightarrow>
                      (case err' of
                         Some e' \<Rightarrow>
                           (Returned (Some e'), m2,
                            [Call (DepGet namespace kongDeploymentName),
                             Log (Infof ''%s not found, creating...'' [S kongDeploymentName]),
                             Call (DepCreate namespace (kongDeployment baseImage replicas)),
                             Log (Error [S ''Could not create kong deployment: '', E e'])])
                       | None \<Rightarrow>
                           (Returned None, m2,
                            [Call (DepGet namespace kongDeploymentName),
                             Log (Infof ''%s not found, creating...'' [S kongDeploymentName]),
                             Call (DepCreate namespace (kongDeployment baseImage replicas))])))
               else
                 (case err of
                    Some e \<Rightarrow>
                      (Returned (Some e), m1,
                       [Call (DepGet namespace kongDeploymentName),
                        Log (Error [S ''Could not get kong deployment! '', E e])])
                  | None \<Rightarrow>
                      if Replicas (Deployment.Spec deployment) \<noteq> replicas then
                        (case DeploymentsUpdate (Kclient k) namespace
                                (deployment\<lparr> Deployment.Spec :=
                                   (Deployment.Spec deployment)\<lparr> Replicas := replicas \<rparr> \<rparr>) m1 of
                           ((_, err'), m2) \<Rightarrow>
                             (case err' of
                                Some e' \<Rightarrow>
                                  (Returned None, m2,
                                   [Call (DepGet namespace kongDeploymentName),
                                    Call (DepUpdate namespace
                                      (deployment\<lparr> Deployment.Spec :=
                                         (Deployment.Spec deployment)\<lparr> Replicas := replicas \<rparr> \<rparr>)),
                                    Log (Error [S ''Could not scale deployment: '', E e'])])
                              | None \<Rightarrow>
                                  (Returned None, m2,
                                   [Call (DepGet namespace kongDeploymentName),
                                    Call (DepUpdate namespace
                                      (deployment\<lparr> Deployment.Spec :=
                                         (Deployment.Spec deployment)\<lparr> Replicas := replicas \<rparr> \<rparr>))])))
                      else
                        (Returned None, m1, [Call (DepGet namespace kongDeploymentName)]))))"

text \<open>
  The loop at the end of \<^verbatim>\<open>DeleteKongDeployment\<close>: one delete call and one log line
  for each replica set of the list, in the list's order.
\<close>

fun delete_replica_sets ::
  "('c, 'w) K8sutil \<Rightarrow> string \<Rightarrow> ReplicaSet list \<Rightarrow> 'w machine \<Rightarrow> 'w machine \<times> event list" where
  "delete_replica_sets k namespace [] m = (m, [])"
| "delete_replica_sets k namespace (replicaSet # rest) m =
     (case ReplicaSetsDelete (Kclient k) namespace
             (ObjectMeta.Name (ReplicaSet.ObjectMeta replicaSet)) m of
        (err, m1) \<Rightarrow>
          (case delete_replica_sets k namespace rest m1 of
             (m2, tr) \<Rightarrow>
               (m2,
                Call (RsDelete namespace (ObjectMeta.Name (ReplicaSet.ObjectMeta replicaSet))) #
                (case err of
                   Some e \<Rightarrow>
                     Log (Errorf ''Could not delete replica sets: %s ''
                       [S (ObjectMeta.Name (ReplicaSet.ObjectMeta replicaSet))])
                 | None \<Rightarrow>
                     Log (Infof ''Deleted replica set: %s''
                       [S (ObjectMeta.Name (ReplicaSet.ObjectMeta replicaSet))])) #
                tr)))"

definition DeleteKongDeployment ::
  "('c, 'w) K8sutil \<Rightarrow> string \<Rightarrow> 'w machine \<Rightarrow> error option outcome \<times> 'w machine \<times> event list" where
  "DeleteKongDeployment k namespace m =
     (case DeploymentsGet (Kclient k) namespace kongDeploymentName m of
        ((dep_ptr, err), m1) \<Rightarrow>
          (case err of
             Some e \<Rightarrow>
               (Returned (Some e), m1,
                [Call (DepGet namespace kongDeploymentName),
                 Log (Error [S ''Could not get deployments! '', E e])])
           | None \<Rightarrow>
               (case new_int32 (heap m1) of
                  (zero, h) \<Rightarrow>
                    (case dep_ptr of
                       None \<Rightarrow>
                         (Panicked NilPointerDereference, m1\<lparr> heap := h \<rparr>,
                          [Call (DepGet namespace kongDeploymentName)])
                     | Some fetched \<Rightarrow>
                         (let deployment = fetched\<lparr> Deployment.Spec :=
                                (Deployment.Spec fetched)\<lparr> Replicas := zero \<rparr> \<rparr>;
                              name = ObjectMeta.Name (Deployment.ObjectMeta deployment)
                          in case DeploymentsUpdate (Kclient k) namespace deployment
                                    (m1\<lparr> heap := h \<rparr>) of
                               ((_, uerr), m2) \<Rightarrow>
                                 (case DeploymentsDelete (Kclient k) namespace name m2 of
                                    (derr, m3) \<Rightarrow>
                                      (case ReplicaSetsList (Kclient k) namespace
                                              ''app=kong,name=kong'' m3 of
                                         ((replicaSets, lerr), m4) \<Rightarrow>
                                           (let tr =
                                              [Call (DepGet namespace kongDeploymentName),
                                               Call (DepUpdate namespace deployment),
                                               (case uerr of
                                                  Some _ \<Rightarrow>
                                                    Log (Errorf ''Could not scale deployment: %s '' [S name])
                                                | None \<Rightarrow>
                                                    Log (Infof ''Scaled deployment: %s to zero'' [S name])),
                                               Call (DepDelete namespace name),
                                               (case derr of
                                                  Some _ \<Rightarrow>
                                                    Log (Errorf ''Could not delete deployments: %s '' [S name])
                                                | None \<Rightarrow>
                                                    Log (Infof ''Deleted deployment: %s'' [S name])),
                                               Sleep 2,
                                               Call (RsList namespace ''app=kong,name=kong'')] @
                                              (case lerr of
                                                 Some e \<Rightarrow>
                                                   [Log (Error [S ''Could not get replica sets! '', E e])]
                                               | None \<Rightarrow> [])
                                            in case replicaSets of
                                                 None \<Rightarrow> (Panicked NilPointerDereference, m4, tr)
                                               | Some l \<Rightarrow>
                                                   (case delete_replica_sets k namespace
                                                           (ReplicaSetList.Items l) m4 of
                                                      (m5, tr') \<Rightarrow>
                                                        (Returned None, m5, tr @ tr'))))))))))"

section \<open>Clients for concrete runs\<close>

text \<open>
  A client over a cluster that holds nothing and accepts everything: a lookup
  returns the empty object with the not-found error, as the typed client does; a
  write succeeds; the list of replica sets is empty.
\<close>

definition emptyService :: Service where
  "emptyService =
     \<lparr> Service.ObjectMeta = \<lparr> ObjectMeta.Name = [], Labels = Map.empty \<rparr>,
       Service.Spec =
         \<lparr> Selector = Map.empty, ServiceSpec.Ports = [], ServiceSpec.Type = [],
           LoadBalancerSourceRanges = [] \<rparr> \<rparr>"

definition emptyDeployment :: Deployment where
  "emptyDeployment =
     \<lparr> Deployment.ObjectMeta = \<lparr> ObjectMeta.Name = [], Labels = Map.empty \<rparr>,
       Deployment.Spec =
         \<lparr> Replicas = None,
           Template =
             \<lparr> PodTemplateSpec.ObjectMeta = \<lparr> ObjectMeta.Name = [], Labels = Map.empty \<rparr>,
               PodTemplateSpec.Spec = \<lparr> Containers = [] \<rparr> \<rparr> \<rparr> \<rparr>"

definition emptyThirdPartyResource :: ThirdPartyResource where
  "emptyThirdPartyResource =
     \<lparr> ThirdPartyResource.ObjectMeta = \<lparr> ObjectMeta.Name = [], Labels = Map.empty \<rparr>,
       Versions = [], Description = [] \<rparr>"

definition emptyCluster :: "'w KubeInterface" where
  "emptyCluster =
     \<lparr> ThirdPartyResourcesGet =
         (\<lambda>name m. ((Some emptyThirdPartyResource, Some (NotFound name)), m)),
       ThirdPartyResourcesCreate = (\<lambda>t m. ((Some t, None), m)),
       ServicesGet = (\<lambda>namespace name m. ((Some emptyService, Some (NotFound name)), m)),
       ServicesCreate = (\<lambda>namespace s m. ((Some s, None), m)),
       ServicesDelete = (\<lambda>namespace name m. (None, m)),
       DeploymentsGet = (\<lambda>namespace name m. ((Some emptyDeployment, Some (NotFound name)), m)),
       DeploymentsCreate = (\<lambda>namespace d m. ((Some d, None), m)),
       DeploymentsUpdate = (\<lambda>namespace d m. ((Some d, None), m)),
       DeploymentsDelete = (\<lambda>namespace name m. (None, m)),
       ReplicaSetsList = (\<lambda>namespace selector m. ((Some \<lparr> ReplicaSetList.Items = [] \<rparr>, None), m)),
       ReplicaSetsDelete = (\<lambda>namespace name m. (None, m)) \<rparr>"

text \<open>
  A REST client that fails twice and then answers: the cluster state counts the
  requests made so far.
\<close>

definition flakyRest :: "'c list \<Rightarrow> ('c, nat) RESTClient" where
  "flakyRest items =
     \<lparr> GetResourceInto =
         (\<lambda>resource l m.
            if cluster m < 2
            then ((l, Some (OtherError ''connection refused'')), m\<lparr> cluster := Suc (cluster m) \<rparr>)
            else ((l\<lparr> KongClusterList.Items := items \<rparr>, None), m\<lparr> cluster := Suc (cluster m) \<rparr>)) \<rparr>"

definition quietRest :: "('c, 'w) RESTClient" where
  "quietRest = \<lparr> GetResourceInto = (\<lambda>resource l m. ((l, None), m)) \<rparr>"

definition operator :: "'w KubeInterface \<Rightarrow> (KongCluster, 'w) K8sutil" where
  "operator c = \<lparr> TprClient = quietRest, Kclient = c, MasterHost = [] \<rparr>"

definition runningDeployment :: Deployment where
  "runningDeployment = kongDeployment ''kong:1.0'' (Some 0)"

text \<open>A cluster where the deployment \<^verbatim>\<open>kong\<close> runs image \<^verbatim>\<open>kong:1.0\<close>.\<close>

definition runningCluster :: "unit KubeInterface" where
  "runningCluster =
     emptyCluster\<lparr> DeploymentsGet := (\<lambda>namespace name m. ((Some runningDeployment, None), m)) \<rparr>"

text \<open>The same cluster, refusing every update of a deployment.\<close>

definition refusingCluster :: "unit KubeInterface" where
  "refusingCluster =
     runningCluster\<lparr> DeploymentsUpdate :=
       (\<lambda>namespace d m. ((Some emptyDeployment, Some (OtherError ''conflict'')), m)) \<rparr>"

text \<open>A cluster that answers every lookup of a service with an error that is not not-found.\<close>

definition forbiddenCluster :: "unit KubeInterface" where
  "forbiddenCluster =
     emptyCluster\<lparr> ServicesGet :=
       (\<lambda>namespace name m. ((Some emptyService, Some (OtherError ''forbidden'')), m)) \<rparr>"

text \<open>A cluster where the third-party resource is registered already.\<close>

definition registeredCluster :: "unit KubeInterface" where
  "registeredCluster =
     emptyCluster\<lparr> ThirdPartyResourcesGet :=
       (\<lambda>name m. ((Some kongThirdPartyResource, None), m)) \<rparr>"

text \<open>
  A cluster that keeps the deployment it was last given, with the replica count
  read at that moment, and hands it out on a lookup as the typed client does:
  decoded into a fresh object, the count in a fresh cell.
\<close>

definition storingCluster :: "(Deployment \<times> int32 option) option KubeInterface" where
  "storingCluster =
     emptyCluster\<lparr>
       DeploymentsGet := (\<lambda>namespace name m.
         case cluster m of
           None \<Rightarrow> ((Some emptyDeployment, Some (NotFound name)), m)
         | Some (d, count) \<Rightarrow>
             (case count of
                None \<Rightarrow>
                  ((Some (d\<lparr> Deployment.Spec := (Deployment.Spec d)\<lparr> Replicas := None \<rparr> \<rparr>), None), m)
              | Some v \<Rightarrow>
                  ((Some (d\<lparr> Deployment.Spec :=
                            (Deployment.Spec d)\<lparr> Replicas := Some (length (heap m)) \<rparr> \<rparr>), None),
                   m\<lparr> heap := heap m @ [v] \<rparr>))),
       DeploymentsCreate := (\<lambda>namespace d m.
         ((Some d, None),
          m\<lparr> cluster := Some (d, deref (heap m) (Replicas (Deployment.Spec d))) \<rparr>)),
       DeploymentsUpdate := (\<lambda>namespace d m.
         ((Some d, None),
          m\<lparr> cluster := Some (d, deref (heap m) (Replicas (Deployment.Spec d))) \<rparr>)) \<rparr>"

definition threeReplicaSets :: ReplicaSetList where
  "threeReplicaSets =
     \<lparr> ReplicaSetList.Items =
         [\<lparr> ReplicaSet.ObjectMeta = \<lparr> ObjectMeta.Name = ''kong-1'', Labels = Map.empty \<rparr> \<rparr>,
          \<lparr> ReplicaSet.ObjectMeta = \<lparr> ObjectMeta.Name = ''kong-2'', Labels = Map.empty \<rparr> \<rparr>,
          \<lparr> ReplicaSet.ObjectMeta = \<lparr> ObjectMeta.Name = ''kong-3'', Labels = Map.empty \<rparr> \<rparr>] \<rparr>"

text \<open>
  A cluster with the running deployment and three replica sets, where the delete of
  the second replica set fails.
\<close>

definition stubbornCluster :: "unit KubeInterface" where
  "stubbornCluster =
     runningCluster\<lparr>
       ReplicaSetsList := (\<lambda>namespace selector m. ((Some threeReplicaSets, None), m)),
       ReplicaSetsDelete := (\<lambda>namespace name m.
         (if name = ''kong-2'' then Some (OtherError ''timeout'') else None, m)) \<rparr>"

definition twoClusters :: "KongCluster list" where
  "twoClusters = [\<lparr> KongCluster.Type = [] \<rparr>, \<lparr> KongCluster.Type = [] \<rparr>]"

definition flakyOperator :: "(KongCluster, nat) K8sutil" where
  "flakyOperator = \<lparr> TprClient = flakyRest twoClusters, Kclient = emptyCluster, MasterHost = [] \<rparr>"

definition machine0 :: "unit machine" where
  "machine0 = \<lparr> heap = [], cluster = () \<rparr>"

section \<open>Reading a run\<close>

text \<open>The calls of a trace, in order.\<close>

primrec calls :: "event list \<Rightarrow> call list" where
  "calls [] = []"
| "calls (ev # tr) = (case ev of Call c \<Rightarrow> c # calls tr | Log _ \<Rightarrow> calls tr | Sleep _ \<Rightarrow> calls tr)"

text \<open>The names of the replica sets a trace asks to delete, in order.\<close>

primrec replica_set_deletes :: "event list \<Rightarrow> string list" where
  "replica_set_deletes [] = []"
| "replica_set_deletes (ev # tr) =
     (case ev of Call (RsDelete namespace name) \<Rightarrow> name # replica_set_deletes tr
      | _ \<Rightarrow> replica_set_deletes tr)"

definition replica_set_names :: "ReplicaSetList \<Rightarrow> string list" where
  "replica_set_names l = map (\<lambda>r. ObjectMeta.Name (ReplicaSet.ObjectMeta r)) (ReplicaSetList.Items l)"

text \<open>
  What the cluster answers when the replica sets of the given names are deleted one
  after the other, starting in state \<open>m\<close>.
\<close>

fun delete_answers ::
  "('c, 'w) K8sutil \<Rightarrow> string \<Rightarrow> string list \<Rightarrow> 'w machine \<Rightarrow> error option list" where
  "delete_answers k namespace [] m = []"
| "delete_answers k namespace (name # names) m =
     fst (ReplicaSetsDelete (Kclient k) namespace name m) #
     delete_answers k namespace names (snd (ReplicaSetsDelete (Kclient k) namespace name m))"

text \<open>
  The part of the trace that belongs to one replica set: the delete call, and the
  line logged for the answer it got.
\<close>

definition replica_set_events :: "string \<Rightarrow> string \<times> error option \<Rightarrow> event list" where
  "replica_set_events namespace na =
     [Call (RsDelete namespace (fst na)),
      (case snd na of
         Some e \<Rightarrow> Log (Errorf ''Could not delete replica sets: %s '' [S (fst na)])
       | None \<Rightarrow> Log (Infof ''Deleted replica set: %s'' [S (fst na)]))]"

text \<open>
  One fetch of \<^verbatim>\<open>GetKongClusters\<close> from a state of the loop (what \<^verbatim>\<open>kongList\<close> holds,
  and the machine); the state after \<open>n\<close> fetches; the error of the fetch number \<open>j\<close>,
  counted from zero; and what the loop adds to the trace for a fetch that failed.
\<close>

definition attempt ::
  "('c, 'w) K8sutil \<Rightarrow> 'c KongClusterList \<times> 'w machine \<Rightarrow>
     ('c KongClusterList \<times> error option) \<times> 'w machine" where
  "attempt k s = GetResourceInto (TprClient k) ''KongClusters'' (fst s) (snd s)"

fun after_attempts ::
  "('c, 'w) K8sutil \<Rightarrow> nat \<Rightarrow> 'c KongClusterList \<times> 'w machine \<Rightarrow>
     'c KongClusterList \<times> 'w machine" where
  "after_attempts k 0 s = s"
| "after_attempts k (Suc n) s =
     after_attempts k n (fst (fst (attempt k s)), snd (attempt k s))"

definition attempt_error ::
  "('c, 'w) K8sutil \<Rightarrow> 'c KongClusterList \<times> 'w machine \<Rightarrow> nat \<Rightarrow> error option" where
  "attempt_error k s j = snd (fst (attempt k (after_attempts k j s)))"

definition retry_events :: "error option \<Rightarrow> event list" where
  "retry_events err =
     (case err of
        Some e \<Rightarrow>
          [Call (RestGet ''KongClusters''),
           Log (Error [S ''error getting kong clusters'']),
           Log (Error [E e]),
           Sleep 5]
      | None \<Rightarrow> [])"

definition first_fetch :: "'w machine \<Rightarrow> 'c KongClusterList \<times> 'w machine" where
  "first_fetch m = (\<lparr> KongClusterList.Items = [] \<rparr>, m)"

text \<open>
  The state of the cluster after the replica sets of the given names were deleted one
  after the other, starting in state \<open>m\<close>.
\<close>

fun after_deletes ::
  "('c, 'w) K8sutil \<Rightarrow> string \<Rightarrow> string list \<Rightarrow> 'w machine \<Rightarrow> 'w machine" where
  "after_deletes k namespace [] m = m"
| "after_deletes k namespace (name # names) m =
     after_deletes k namespace names (snd (ReplicaSetsDelete (Kclient k) namespace name m))"







section \<open>CreateKongDeployment: when it scales, and what it changes\<close>

lemma CreateKongDeployment_update_iff_pointers_differ:
  assumes "DeploymentsGet (Kclient k) namespace kongDeploymentName m = ((Some d, None), m1)"
    and "ObjectMeta.Name (Deployment.ObjectMeta d) \<noteq> []"
  shows "calls (snd (snd (CreateKongDeployment k baseImage replicas namespace m))) =
     (if Replicas (Deployment.Spec d) \<noteq> replicas
      then [DepGet namespace kongDeploymentName,
            DepUpdate namespace (d\<lparr> Deployment.Spec := (Deployment.Spec d)\<lparr> Replicas := replicas \<rparr> \<rparr>)]
      else [DepGet namespace kongDeploymentName])"
  using assms by (simp add: CreateKongDeployment_def split: prod.splits option.splits)

lemma CreateKongDeployment_updates_on_equal_counts:
  "deref [3, 3] (Replicas (Deployment.Spec runningDeployment)) = Some 3 \<and>
   deref [3, 3] (Some 1) = Some 3 \<and>
   calls (snd (snd (CreateKongDeployment (operator runningCluster) ''kong:1.0'' (Some 1) ''default''
      \<lparr> heap = [3, 3], cluster = () \<rparr>))) =
     [DepGet ''default'' ''kong'',
      DepUpdate ''default'' (kongDeployment ''kong:1.0'' (Some 1))]"
  by (simp add: CreateKongDeployment_def operator_def runningCluster_def emptyCluster_def
      runningDeployment_def kongDeployment_def kongDeploymentName_def)

text \<open>
  C1. The claim: for an existing deployment, an update is issued if and only if its
  replica count differs from the desired count as integers, so a second pass with
  the same desired state issues none. The code compares the two \<^verbatim>\<open>*int32\<close>
  pointers (lemma \<open>CreateKongDeployment_update_iff_pointers_differ\<close>). Two passes
  with the desired count 3 in the cell at address 0: the first finds nothing and
  creates the deployment; the second fetches it with its count 3 in the fresh cell
  at address 1, and issues an update although nothing changed.
\<close>

theorem CreateKongDeployment_second_pass_updates:
  "CreateKongDeployment (operator storingCluster) ''kong:1.0'' (Some 0) ''default''
      \<lparr> heap = [3], cluster = None \<rparr> =
     (Returned None,
      \<lparr> heap = [3], cluster = Some (kongDeployment ''kong:1.0'' (Some 0), Some 3) \<rparr>,
      [Call (DepGet ''default'' ''kong''),
       Log (Infof ''%s not found, creating...'' [S ''kong'']),
       Call (DepCreate ''default'' (kongDeployment ''kong:1.0'' (Some 0)))]) \<and>
   DeploymentsGet storingCluster ''default'' ''kong''
      \<lparr> heap = [3], cluster = Some (kongDeployment ''kong:1.0'' (Some 0), Some 3) \<rparr> =
     ((Some (kongDeployment ''kong:1.0'' (Some 1)), None),
      \<lparr> heap = [3, 3], cluster = Some (kongDeployment ''kong:1.0'' (Some 0), Some 3) \<rparr>) \<and>
   deref [3, 3] (Some 1) = deref [3, 3] (Some 0) \<and>
   calls (snd (snd (CreateKongDeployment (operator storingCluster) ''kong:1.0'' (Some 0) ''default''
      \<lparr> heap = [3], cluster = Some (kongDeployment ''kong:1.0'' (Some 0), Some 3) \<rparr>))) =
     [DepGet ''default'' ''kong'',
      DepUpdate ''default'' (kongDeployment ''kong:1.0'' (Some 0))]"
  by (simp add: CreateKongDeployment_def operator_def storingCluster_def emptyCluster_def
      emptyDeployment_def kongDeployment_def kongDeploymentName_def)

text \<open>
  C2. When the deployment exists and its replica count differs from the desired
  one, the calls are the lookup and one update, and the object handed to the update
  is the fetched one with the replica count replaced: its metadata and its whole
  pod template, the container images among them, are as fetched. The update is
  applied to the state the lookup left, and the function ends in the state the
  update left.
\<close>

theorem CreateKongDeployment_scales_replicas_only:
  assumes "DeploymentsGet (Kclient k) namespace kongDeploymentName m = ((Some d, None), m1)"
    and "ObjectMeta.Name (Deployment.ObjectMeta d) \<noteq> []"
    and "deref (heap m1) (Replicas (Deployment.Spec d)) \<noteq> deref (heap m1) replicas"
  shows "\<exists>d'. calls (snd (snd (CreateKongDeployment k baseImage replicas namespace m))) =
           [DepGet namespace kongDeploymentName, DepUpdate namespace d'] \<and>
         fst (snd (CreateKongDeployment k baseImage replicas namespace m)) =
           snd (DeploymentsUpdate (Kclient k) namespace d' m1) \<and>
         d' = d\<lparr> Deployment.Spec := (Deployment.Spec d)\<lparr> Replicas := replicas \<rparr> \<rparr> \<and>
         Deployment.ObjectMeta d' = Deployment.ObjectMeta d \<and>
         Template (Deployment.Spec d') = Template (Deployment.Spec d) \<and>
         map Image (Containers (PodTemplateSpec.Spec (Template (Deployment.Spec d')))) =
           map Image (Containers (PodTemplateSpec.Spec (Template (Deployment.Spec d))))"
proof -
  from assms(3) have ne: "Replicas (Deployment.Spec d) \<noteq> replicas" by auto
  obtain u uerr m2 where
    upd: "DeploymentsUpdate (Kclient k) namespace
            (d\<lparr> Deployment.Spec := (Deployment.Spec d)\<lparr> Replicas := replicas \<rparr> \<rparr>) m1 =
          ((u, uerr), m2)"
    by (metis prod.exhaust)
  show ?thesis
    using assms(1,2) ne upd
    by (cases uerr) (simp_all add: CreateKongDeployment_def)
qed

theorem CreateKongDeployment_scales_replicas_only_witness:
  "DeploymentsGet (Kclient (operator runningCluster)) ''default'' kongDeploymentName
      \<lparr> heap = [3, 5], cluster = () \<rparr> =
     ((Some runningDeployment, None), \<lparr> heap = [3, 5], cluster = () \<rparr>) \<and>
   ObjectMeta.Name (Deployment.ObjectMeta runningDeployment) \<noteq> [] \<and>
   deref [3, 5] (Replicas (Deployment.Spec runningDeployment)) \<noteq> deref [3, 5] (Some 1) \<and>
   calls (snd (snd (CreateKongDeployment (operator runningCluster) ''kong:2.0'' (Some 1) ''default''
      \<lparr> heap = [3, 5], cluster = () \<rparr>))) =
     [DepGet ''default'' ''kong'',
      DepUpdate ''default'' (kongDeployment ''kong:1.0'' (Some 1))] \<and>
   fst (snd (CreateKongDeployment (operator runningCluster) ''kong:2.0'' (Some 1) ''default''
      \<lparr> heap = [3, 5], cluster = () \<rparr>)) = \<lparr> heap = [3, 5], cluster = () \<rparr>"
  using CreateKongDeployment_scales_replicas_only
    [of "operator runningCluster" "''default''" "\<lparr> heap = [3, 5], cluster = () \<rparr>"
        runningDeployment "\<lparr> heap = [3, 5], cluster = () \<rparr>" "Some 1" "''kong:2.0''"]
  by (simp add: operator_def runningCluster_def emptyCluster_def
      runningDeployment_def kongDeployment_def kongDeploymentName_def)

section \<open>Errors of the lookup, the create and the update\<close>

lemma CreateKongProxyService_returns_lookup_error:
  assumes "ServicesGet (Kclient k) namespace kongProxyServiceName m = ((Some svc, Some e), m1)"
    and "ObjectMeta.Name (Service.ObjectMeta svc) \<noteq> []"
  shows "CreateKongProxyService k namespace m =
     (Returned (Some e), m1,
      [Call (SvcGet namespace kongProxyServiceName),
       Log (Error [S ''Could not get proxy service! '', E e])])"
  using assms by (simp add: CreateKongProxyService_def)

lemma CreateKongAdminService_returns_lookup_error:
  assumes "ServicesGet (Kclient k) namespace kongAdminServiceName m = ((Some svc, Some e), m1)"
    and "ObjectMeta.Name (Service.ObjectMeta svc) \<noteq> []"
  shows "CreateKongAdminService k namespace m =
     (Returned (Some e), m1,
      [Call (SvcGet namespace kongAdminServiceName),
       Log (Error [S ''Could not get admin service: '', E e])])"
  using assms by (simp add: CreateKongAdminService_def)

text \<open>
  C3. The claim: a lookup of a service that fails with an error other than
  not-found is returned, and nothing is created. The code decides by the name of
  the returned object, not by the error: the lookup error is returned only when the
  object carries a name (the two lemmas above). Here the lookup fails with
  \<^verbatim>\<open>forbidden\<close> and returns the empty object, as a failed lookup does; both
  functions create the service and return nil.
\<close>

theorem Create_services_create_on_lookup_error:
  "CreateKongProxyService (operator forbiddenCluster) ''default'' machine0 =
     (Returned None, machine0,
      [Call (SvcGet ''default'' ''kong-proxy''),
       Log (Infof ''%s not found, creating...'' [S ''kong-proxy'']),
       Call (SvcCreate ''default'' kongProxyService)]) \<and>
   CreateKongAdminService (operator forbiddenCluster) ''default'' machine0 =
     (Returned None, machine0,
      [Call (SvcGet ''default'' ''kong-admin''),
       Log (Infof ''%s not found, creating...'' [S ''kong-admin'']),
       Call (SvcCreate ''default'' kongAdminService)])"
  by (simp add: CreateKongProxyService_def CreateKongAdminService_def operator_def
      forbiddenCluster_def emptyCluster_def emptyService_def kongProxyServiceName_def
      kongAdminServiceName_def)

lemma CreateKongDeployment_returns_create_error:
  assumes "DeploymentsGet (Kclient k) namespace kongDeploymentName m = ((Some d, err), m1)"
    and "ObjectMeta.Name (Deployment.ObjectMeta d) = []"
    and "DeploymentsCreate (Kclient k) namespace (kongDeployment baseImage replicas) m1 =
           ((c, Some e), m2)"
  shows "fst (CreateKongDeployment k baseImage replicas namespace m) = Returned (Some e)"
  using assms by (simp add: CreateKongDeployment_def)

text \<open>
  C4. The claim: a failing create and a failing scaling update are both returned.
  The create error is (lemma above). The update error is logged and dropped: here
  the update fails with \<^verbatim>\<open>conflict\<close>, the line is logged and the result is nil.
\<close>

theorem CreateKongDeployment_drops_update_error:
  "CreateKongDeployment (operator refusingCluster) ''kong:1.0'' (Some 1) ''default''
      \<lparr> heap = [3, 5], cluster = () \<rparr> =
     (Returned None, \<lparr> heap = [3, 5], cluster = () \<rparr>,
      [Call (DepGet ''default'' ''kong''),
       Call (DepUpdate ''default'' (kongDeployment ''kong:1.0'' (Some 1))),
       Log (Error [S ''Could not scale deployment: '', E (OtherError ''conflict'')])])"
  by (simp add: CreateKongDeployment_def operator_def refusingCluster_def runningCluster_def
      emptyCluster_def runningDeployment_def kongDeployment_def kongDeploymentName_def)

section \<open>DeleteKongDeployment: the replica sets\<close>

lemma delete_replica_sets_trace:
  "snd (delete_replica_sets k namespace items m) =
     concat (map (replica_set_events namespace)
       (zip (map (\<lambda>r. ObjectMeta.Name (ReplicaSet.ObjectMeta r)) items)
            (delete_answers k namespace
               (map (\<lambda>r. ObjectMeta.Name (ReplicaSet.ObjectMeta r)) items) m)))"
proof (induction items arbitrary: m)
  case Nil
  show ?case by simp
next
  case (Cons r items)
  show ?case
    by (simp add: Cons replica_set_events_def case_prod_beta split: option.splits)
qed

lemma delete_replica_sets_state:
  "fst (delete_replica_sets k namespace items m) =
     after_deletes k namespace (map (\<lambda>r. ObjectMeta.Name (ReplicaSet.ObjectMeta r)) items) m"
proof (induction items arbitrary: m)
  case Nil
  show ?case by simp
next
  case (Cons r items)
  show ?case
    by (simp add: Cons case_prod_beta)
qed

lemma length_delete_answers: "length (delete_answers k namespace names m) = length names"
  by (induction names arbitrary: m) simp_all

lemma replica_set_deletes_append:
  "replica_set_deletes (xs @ ys) = replica_set_deletes xs @ replica_set_deletes ys"
  by (induction xs) (simp_all split: event.splits call.splits)

lemma replica_set_deletes_events:
  "length answers = length names \<Longrightarrow>
   replica_set_deletes (concat (map (replica_set_events namespace) (zip names answers))) = names"
proof (induction names arbitrary: answers)
  case Nil
  show ?case by simp
next
  case (Cons n names)
  then obtain a rest where a: "answers = a # rest" by (cases answers) auto
  with Cons show ?case
    by (simp add: replica_set_events_def split: option.splits)
qed

text \<open>
  C5. When the deployment is found and the list call returns a list, the teardown
  asks to delete every replica set of the list, in order, whatever the earlier
  deletes answered: the trace ends with one delete call and one log line for each
  replica set (an error line where the delete failed), no other delete of a replica
  set is issued, and the function returns nil, in the state that these deletes,
  applied one after the other to the state the list call left, have produced.
\<close>

theorem DeleteKongDeployment_deletes_every_replica_set:
  assumes "DeploymentsGet (Kclient k) namespace kongDeploymentName m = ((Some d, None), m1)"
    and "DeploymentsUpdate (Kclient k) namespace
           (d\<lparr> Deployment.Spec := (Deployment.Spec d)\<lparr> Replicas := Some (length (heap m1)) \<rparr> \<rparr>)
           (m1\<lparr> heap := heap m1 @ [0] \<rparr>) = (u, m2)"
    and "DeploymentsDelete (Kclient k) namespace (ObjectMeta.Name (Deployment.ObjectMeta d)) m2 = (derr, m3)"
    and "ReplicaSetsList (Kclient k) namespace ''app=kong,name=kong'' m3 = ((Some l, lerr), m4)"
  shows "\<exists>pre. fst (DeleteKongDeployment k namespace m) = Returned None \<and>
           snd (snd (DeleteKongDeployment k namespace m)) =
             pre @ concat (map (replica_set_events namespace)
                     (zip (replica_set_names l)
                          (delete_answers k namespace (replica_set_names l) m4))) \<and>
           replica_set_deletes pre = [] \<and>
           length (delete_answers k namespace (replica_set_names l) m4) = length (replica_set_names l) \<and>
           replica_set_deletes (snd (snd (DeleteKongDeployment k namespace m))) = replica_set_names l \<and>
           fst (snd (DeleteKongDeployment k namespace m)) =
             after_deletes k namespace (replica_set_names l) m4"
proof -
  obtain uo ue where u: "u = (uo, ue)" by (cases u)
  let ?pre = "[Call (DepGet namespace kongDeploymentName),
       Call (DepUpdate namespace (d\<lparr> Deployment.Spec := (Deployment.Spec d)\<lparr> Replicas := Some (length (heap m1)) \<rparr> \<rparr>)),
       (case ue of
          Some _ \<Rightarrow> Log (Errorf ''Could not scale deployment: %s '' [S (ObjectMeta.Name (Deployment.ObjectMeta d))])
        | None \<Rightarrow> Log (Infof ''Scaled deployment: %s to zero'' [S (ObjectMeta.Name (Deployment.ObjectMeta d))])),
       Call (DepDelete namespace (ObjectMeta.Name (Deployment.ObjectMeta d))),
       (case derr of
          Some _ \<Rightarrow> Log (Errorf ''Could not delete deployments: %s '' [S (ObjectMeta.Name (Deployment.ObjectMeta d))])
        | None \<Rightarrow> Log (Infof ''Deleted deployment: %s'' [S (ObjectMeta.Name (Deployment.ObjectMeta d))])),
       Sleep 2,
       Call (RsList namespace ''app=kong,name=kong'')] @
      (case lerr of
         Some e \<Rightarrow> [Log (Error [S ''Could not get replica sets! '', E e])]
       | None \<Rightarrow> [])"
  have run: "DeleteKongDeployment k namespace m =
      (Returned None, fst (delete_replica_sets k namespace (ReplicaSetList.Items l) m4),
       ?pre @ snd (delete_replica_sets k namespace (ReplicaSetList.Items l) m4))"
    using assms u
    by (simp add: DeleteKongDeployment_def new_int32_def Let_def split: prod.splits cong: option.case_cong)
  have pre: "replica_set_deletes ?pre = []"
    by (cases ue; cases derr; cases lerr) simp_all
  have len: "length (delete_answers k namespace (replica_set_names l) m4) = length (replica_set_names l)"
    by (rule length_delete_answers)
  have tr: "snd (snd (DeleteKongDeployment k namespace m)) =
      ?pre @ concat (map (replica_set_events namespace)
                     (zip (replica_set_names l)
                          (delete_answers k namespace (replica_set_names l) m4)))"
    by (simp add: run delete_replica_sets_trace replica_set_names_def)
  have all: "replica_set_deletes (snd (snd (DeleteKongDeployment k namespace m))) = replica_set_names l"
  proof -
    have "replica_set_deletes (snd (snd (DeleteKongDeployment k namespace m))) =
        replica_set_deletes ?pre @
        replica_set_deletes (concat (map (replica_set_events namespace)
          (zip (replica_set_names l) (delete_answers k namespace (replica_set_names l) m4))))"
      unfolding tr by (rule replica_set_deletes_append)
    also have "\<dots> = replica_set_names l"
      by (simp only: pre append_Nil replica_set_deletes_events [OF len])
    finally show ?thesis .
  qed
  have st: "fst (snd (DeleteKongDeployment k namespace m)) =
      after_deletes k namespace (replica_set_names l) m4"
    by (simp add: run delete_replica_sets_state replica_set_names_def)
  from run pre len tr all st show ?thesis
    by (intro exI[of _ ?pre]) simp
qed

theorem DeleteKongDeployment_deletes_every_replica_set_witness:
  "DeploymentsGet (Kclient (operator stubbornCluster)) ''default'' kongDeploymentName machine0 =
     ((Some runningDeployment, None), machine0) \<and>
   ReplicaSetsList (Kclient (operator stubbornCluster)) ''default'' ''app=kong,name=kong''
      \<lparr> heap = [0], cluster = () \<rparr> =
     ((Some threeReplicaSets, None), \<lparr> heap = [0], cluster = () \<rparr>) \<and>
   delete_answers (operator stubbornCluster) ''default'' (replica_set_names threeReplicaSets)
      \<lparr> heap = [0], cluster = () \<rparr> =
     [None, Some (OtherError ''timeout''), None] \<and>
   fst (DeleteKongDeployment (operator stubbornCluster) ''default'' machine0) = Returned None \<and>
   replica_set_deletes (snd (snd (DeleteKongDeployment (operator stubbornCluster) ''default'' machine0))) =
     [''kong-1'', ''kong-2'', ''kong-3''] \<and>
   fst (snd (DeleteKongDeployment (operator stubbornCluster) ''default'' machine0)) =
     \<lparr> heap = [0], cluster = () \<rparr>"
proof -
  have g: "DeploymentsGet (Kclient (operator stubbornCluster)) ''default'' kongDeploymentName machine0 =
      ((Some runningDeployment, None), machine0)"
    by (simp add: operator_def stubbornCluster_def runningCluster_def)
  have u: "DeploymentsUpdate (Kclient (operator stubbornCluster)) ''default''
      (runningDeployment\<lparr> Deployment.Spec :=
         (Deployment.Spec runningDeployment)\<lparr> Replicas := Some (length (heap machine0)) \<rparr> \<rparr>)
      (machine0\<lparr> heap := heap machine0 @ [0] \<rparr>) =
      ((Some (runningDeployment\<lparr> Deployment.Spec :=
         (Deployment.Spec runningDeployment)\<lparr> Replicas := Some (length (heap machine0)) \<rparr> \<rparr>), None),
       \<lparr> heap = [0], cluster = () \<rparr>)"
    by (simp add: operator_def stubbornCluster_def runningCluster_def emptyCluster_def machine0_def)
  have d: "DeploymentsDelete (Kclient (operator stubbornCluster)) ''default''
      (ObjectMeta.Name (Deployment.ObjectMeta runningDeployment)) \<lparr> heap = [0], cluster = () \<rparr> =
      (None, \<lparr> heap = [0], cluster = () \<rparr>)"
    by (simp add: operator_def stubbornCluster_def runningCluster_def emptyCluster_def)
  have l: "ReplicaSetsList (Kclient (operator stubbornCluster)) ''default'' ''app=kong,name=kong''
      \<lparr> heap = [0], cluster = () \<rparr> =
      ((Some threeReplicaSets, None), \<lparr> heap = [0], cluster = () \<rparr>)"
    by (simp add: operator_def stubbornCluster_def)
  have n: "replica_set_names threeReplicaSets = [''kong-1'', ''kong-2'', ''kong-3'']"
    by (simp add: replica_set_names_def threeReplicaSets_def)
  have a: "delete_answers (operator stubbornCluster) ''default'' (replica_set_names threeReplicaSets)
      \<lparr> heap = [0], cluster = () \<rparr> = [None, Some (OtherError ''timeout''), None]"
    by (simp add: n operator_def stubbornCluster_def)
  from DeleteKongDeployment_deletes_every_replica_set [OF g u d l]
  have "fst (DeleteKongDeployment (operator stubbornCluster) ''default'' machine0) = Returned None \<and>
      replica_set_deletes (snd (snd (DeleteKongDeployment (operator stubbornCluster) ''default'' machine0))) =
        replica_set_names threeReplicaSets \<and>
      fst (snd (DeleteKongDeployment (operator stubbornCluster) ''default'' machine0)) =
        after_deletes (operator stubbornCluster) ''default'' (replica_set_names threeReplicaSets)
          \<lparr> heap = [0], cluster = () \<rparr>"
    by blast
  moreover have "after_deletes (operator stubbornCluster) ''default''
      (replica_set_names threeReplicaSets) \<lparr> heap = [0], cluster = () \<rparr> =
      \<lparr> heap = [0], cluster = () \<rparr>"
    by (simp add: n operator_def stubbornCluster_def)
  ultimately show ?thesis using g l a n by simp
qed

section \<open>MonitorKongEvents\<close>





section \<open>The services created when none exists\<close>

lemma kongProxyService_fields:
  "kongProxyService =
              \<lparr> Service.ObjectMeta =
                  \<lparr> ObjectMeta.Name = ''kong-proxy'', Labels = [''name'' \<mapsto> ''kong-proxy''] \<rparr>,
                Service.Spec =
                  \<lparr> Selector = [''app'' \<mapsto> ''kong''],
                    ServiceSpec.Ports =
                      [\<lparr> ServicePort.Name = ''kong-proxy'', Port = 80,
                         TargetPort = IntVal 8000, ServicePort.Protocol = ''TCP'' \<rparr>,
                       \<lparr> ServicePort.Name = ''kong-proxy-ssl'', Port = 443,
                         TargetPort = IntVal 8443, ServicePort.Protocol = ''TCP'' \<rparr>],
                    ServiceSpec.Type = ''LoadBalancer'',
                    LoadBalancerSourceRanges = [''0.0.0.0/0''] \<rparr> \<rparr>"
  by (simp add: kongProxyService_def kongProxyServiceName_def ServiceTypeLoadBalancer_def
      FromInt_def)

lemma kongAdminService_fields:
  "kongAdminService =
              \<lparr> Service.ObjectMeta =
                  \<lparr> ObjectMeta.Name = ''kong-admin'', Labels = [''name'' \<mapsto> ''kong-admin''] \<rparr>,
                Service.Spec =
                  \<lparr> Selector = [''app'' \<mapsto> ''kong''],
                    ServiceSpec.Ports =
                      [\<lparr> ServicePort.Name = ''kong-admin'', Port = 8444,
                         TargetPort = IntVal 8444, ServicePort.Protocol = ''TCP'' \<rparr>],
                    ServiceSpec.Type = ''ClusterIP'',
                    LoadBalancerSourceRanges = [] \<rparr> \<rparr>"
  by (simp add: kongAdminService_def kongAdminServiceName_def ServiceTypeClusterIP_def
      FromInt_def)

text \<open>
  C7. When the lookup returns an object without a name, each function issues the
  lookup and exactly one create, applied to the state the lookup left: of the
  service \<^verbatim>\<open>kong-proxy\<close>, a load balancer open to 0.0.0.0/0 with the ports 80 to 8000
  and 443 to 8443 over TCP, and of the service \<^verbatim>\<open>kong-admin\<close>, a cluster-IP service
  with the port 8444 to 8444 over TCP. The function ends in the state the create
  left and returns what the create returned as its error.
\<close>

theorem Create_services_when_absent:
  assumes "ServicesGet (Kclient k) namespace kongProxyServiceName m = ((Some svc, err), m1)"
    and "ObjectMeta.Name (Service.ObjectMeta svc) = []"
    and "ServicesCreate (Kclient k) namespace
              \<lparr> Service.ObjectMeta =
                  \<lparr> ObjectMeta.Name = ''kong-proxy'', Labels = [''name'' \<mapsto> ''kong-proxy''] \<rparr>,
                Service.Spec =
                  \<lparr> Selector = [''app'' \<mapsto> ''kong''],
                    ServiceSpec.Ports =
                      [\<lparr> ServicePort.Name = ''kong-proxy'', Port = 80,
                         TargetPort = IntVal 8000, ServicePort.Protocol = ''TCP'' \<rparr>,
                       \<lparr> ServicePort.Name = ''kong-proxy-ssl'', Port = 443,
                         TargetPort = IntVal 8443, ServicePort.Protocol = ''TCP'' \<rparr>],
                    ServiceSpec.Type = ''LoadBalancer'',
                    LoadBalancerSourceRanges = [''0.0.0.0/0''] \<rparr> \<rparr> m1 = ((created, cerr), m2)"
    and "ServicesGet (Kclient k') namespace' kongAdminServiceName m' = ((Some svc', err'), m1')"
    and "ObjectMeta.Name (Service.ObjectMeta svc') = []"
    and "ServicesCreate (Kclient k') namespace'
              \<lparr> Service.ObjectMeta =
                  \<lparr> ObjectMeta.Name = ''kong-admin'', Labels = [''name'' \<mapsto> ''kong-admin''] \<rparr>,
                Service.Spec =
                  \<lparr> Selector = [''app'' \<mapsto> ''kong''],
                    ServiceSpec.Ports =
                      [\<lparr> ServicePort.Name = ''kong-admin'', Port = 8444,
                         TargetPort = IntVal 8444, ServicePort.Protocol = ''TCP'' \<rparr>],
                    ServiceSpec.Type = ''ClusterIP'',
                    LoadBalancerSourceRanges = [] \<rparr> \<rparr> m1' = ((created', cerr'), m2')"
  shows "fst (CreateKongProxyService k namespace m) = Returned cerr \<and>
         fst (snd (CreateKongProxyService k namespace m)) = m2 \<and>
         calls (snd (snd (CreateKongProxyService k namespace m))) =
           [SvcGet namespace ''kong-proxy'',
            SvcCreate namespace
              \<lparr> Service.ObjectMeta =
                  \<lparr> ObjectMeta.Name = ''kong-proxy'', Labels = [''name'' \<mapsto> ''kong-proxy''] \<rparr>,
                Service.Spec =
                  \<lparr> Selector = [''app'' \<mapsto> ''kong''],
                    ServiceSpec.Ports =
                      [\<lparr> ServicePort.Name = ''kong-proxy'', Port = 80,
                         TargetPort = IntVal 8000, ServicePort.Protocol = ''TCP'' \<rparr>,
                       \<lparr> ServicePort.Name = ''kong-proxy-ssl'', Port = 443,
                         TargetPort = IntVal 8443, ServicePort.Protocol = ''TCP'' \<rparr>],
                    ServiceSpec.Type = ''LoadBalancer'',
                    LoadBalancerSourceRanges = [''0.0.0.0/0''] \<rparr> \<rparr>] \<and>
         fst (CreateKongAdminService k' namespace' m') = Returned cerr' \<and>
         fst (snd (CreateKongAdminService k' namespace' m')) = m2' \<and>
         calls (snd (snd (CreateKongAdminService k' namespace' m'))) =
           [SvcGet namespace' ''kong-admin'',
            SvcCreate namespace'
              \<lparr> Service.ObjectMeta =
                  \<lparr> ObjectMeta.Name = ''kong-admin'', Labels = [''name'' \<mapsto> ''kong-admin''] \<rparr>,
                Service.Spec =
                  \<lparr> Selector = [''app'' \<mapsto> ''kong''],
                    ServiceSpec.Ports =
                      [\<lparr> ServicePort.Name = ''kong-admin'', Port = 8444,
                         TargetPort = IntVal 8444, ServicePort.Protocol = ''TCP'' \<rparr>],
                    ServiceSpec.Type = ''ClusterIP'',
                    LoadBalancerSourceRanges = [] \<rparr> \<rparr>]"
proof -
  have p: "fst (CreateKongProxyService k namespace m) = Returned cerr \<and>
      fst (snd (CreateKongProxyService k namespace m)) = m2 \<and>
      calls (snd (snd (CreateKongProxyService k namespace m))) =
        [SvcGet namespace kongProxyServiceName, SvcCreate namespace kongProxyService]"
    using assms(1,2) assms(3) [folded kongProxyService_fields]
    by (cases cerr) (simp_all add: CreateKongProxyService_def)
  have a: "fst (CreateKongAdminService k' namespace' m') = Returned cerr' \<and>
      fst (snd (CreateKongAdminService k' namespace' m')) = m2' \<and>
      calls (snd (snd (CreateKongAdminService k' namespace' m'))) =
        [SvcGet namespace' kongAdminServiceName, SvcCreate namespace' kongAdminService]"
    using assms(4,5) assms(6) [folded kongAdminService_fields]
    by (cases cerr') (simp_all add: CreateKongAdminService_def)
  from p a show ?thesis
    by (simp add: kongProxyService_fields kongAdminService_fields kongProxyServiceName_def
        kongAdminServiceName_def)
qed

theorem Create_services_when_absent_witness:
  "ServicesGet (Kclient (operator emptyCluster)) ''default'' kongProxyServiceName machine0 =
     ((Some emptyService, Some (NotFound ''kong-proxy'')), machine0) \<and>
   ServicesGet (Kclient (operator emptyCluster)) ''default'' kongAdminServiceName machine0 =
     ((Some emptyService, Some (NotFound ''kong-admin'')), machine0) \<and>
   ObjectMeta.Name (Service.ObjectMeta emptyService) = [] \<and>
   ServicesCreate (Kclient (operator emptyCluster)) ''default'' kongProxyService machine0 =
     ((Some kongProxyService, None), machine0) \<and>
   ServicesCreate (Kclient (operator emptyCluster)) ''default'' kongAdminService machine0 =
     ((Some kongAdminService, None), machine0) \<and>
   fst (CreateKongProxyService (operator emptyCluster) ''default'' machine0) = Returned None \<and>
   fst (snd (CreateKongProxyService (operator emptyCluster) ''default'' machine0)) = machine0 \<and>
   calls (snd (snd (CreateKongProxyService (operator emptyCluster) ''default'' machine0))) =
     [SvcGet ''default'' ''kong-proxy'', SvcCreate ''default'' kongProxyService] \<and>
   fst (CreateKongAdminService (operator emptyCluster) ''default'' machine0) = Returned None \<and>
   fst (snd (CreateKongAdminService (operator emptyCluster) ''default'' machine0)) = machine0 \<and>
   calls (snd (snd (CreateKongAdminService (operator emptyCluster) ''default'' machine0))) =
     [SvcGet ''default'' ''kong-admin'', SvcCreate ''default'' kongAdminService]"
proof -
  have p: "ServicesGet (Kclient (operator emptyCluster)) ''default'' kongProxyServiceName machine0 =
      ((Some emptyService, Some (NotFound ''kong-proxy'')), machine0)"
    by (simp add: operator_def emptyCluster_def kongProxyServiceName_def)
  have a: "ServicesGet (Kclient (operator emptyCluster)) ''default'' kongAdminServiceName machine0 =
      ((Some emptyService, Some (NotFound ''kong-admin'')), machine0)"
    by (simp add: operator_def emptyCluster_def kongAdminServiceName_def)
  have e: "ObjectMeta.Name (Service.ObjectMeta emptyService) = []"
    by (simp add: emptyService_def)
  have c: "ServicesCreate (Kclient (operator emptyCluster)) ''default'' s machine0 =
      ((Some s, None), machine0)" for s
    by (simp add: operator_def emptyCluster_def)
  from Create_services_when_absent [OF p e c a e c] p a e c [of kongProxyService]
    c [of kongAdminService]
  show ?thesis
    by (simp add: kongProxyService_fields kongAdminService_fields)
qed

section \<open>CreateKubernetesThirdPartyResource\<close>

text \<open>
  C8, as stated: on not-found the resource is created with the description
  \<^verbatim>\<open>Managed kong clusters.\<close>, with a full stop. On the empty cluster the lookup
  reports not-found and the resource created has another description.
\<close>

theorem CreateKubernetesThirdPartyResource_description_counterexample:
  "calls (snd (snd (CreateKubernetesThirdPartyResource (operator emptyCluster) machine0))) =
     [TprGet tprName, TprCreate kongThirdPartyResource] \<and>
   Description kongThirdPartyResource \<noteq> ''Managed kong clusters.''"
  by (simp add: CreateKubernetesThirdPartyResource_def operator_def emptyCluster_def
      kongThirdPartyResource_def)

text \<open>
  C8, amended. The function first looks the resource up by its name. If the lookup
  reports not-found, it issues one create, of the resource with that name, the
  single version \<^verbatim>\<open>v1\<close> and the description \<^verbatim>\<open>Managed kong clusters\<close> (no full
  stop), applied to the state the lookup left; it ends in the state the create
  left, with nil if the create succeeded and a panic on the create's error if not.
  If the lookup finds the resource, the lookup is the only call: nothing is
  written, the state is the one the lookup left, and the result is nil.
\<close>

theorem CreateKubernetesThirdPartyResource_registers:
  "(\<forall>t e m1 created cerr m2.
      ThirdPartyResourcesGet (Kclient k) tprName m = ((t, Some e), m1) \<and> IsNotFound e \<and>
      ThirdPartyResourcesCreate (Kclient k)
           \<lparr> ThirdPartyResource.ObjectMeta =
               \<lparr> ObjectMeta.Name = ''kong-cluster.enterprises.upmc.com'', Labels = Map.empty \<rparr>,
             Versions = [\<lparr> APIVersion.Name = ''v1'' \<rparr>],
             Description = ''Managed kong clusters'' \<rparr> m1 = ((created, cerr), m2) \<longrightarrow>
      fst (CreateKubernetesThirdPartyResource k m) =
        (case cerr of None \<Rightarrow> Returned None | Some e' \<Rightarrow> Panicked (PanicError e')) \<and>
      fst (snd (CreateKubernetesThirdPartyResource k m)) = m2 \<and>
      calls (snd (snd (CreateKubernetesThirdPartyResource k m))) =
        [TprGet ''kong-cluster.enterprises.upmc.com'',
         TprCreate
           \<lparr> ThirdPartyResource.ObjectMeta =
               \<lparr> ObjectMeta.Name = ''kong-cluster.enterprises.upmc.com'', Labels = Map.empty \<rparr>,
             Versions = [\<lparr> APIVersion.Name = ''v1'' \<rparr>],
             Description = ''Managed kong clusters'' \<rparr>]) \<and>
   (\<forall>t m1. ThirdPartyResourcesGet (Kclient k) tprName m = ((Some t, None), m1) \<longrightarrow>
      fst (CreateKubernetesThirdPartyResource k m) = Returned None \<and>
      fst (snd (CreateKubernetesThirdPartyResource k m)) = m1 \<and>
      calls (snd (snd (CreateKubernetesThirdPartyResource k m))) =
        [TprGet ''kong-cluster.enterprises.upmc.com''])"
proof (intro conjI allI impI)
  fix t e m1 created cerr m2
  assume h: "ThirdPartyResourcesGet (Kclient k) tprName m = ((t, Some e), m1) \<and> IsNotFound e \<and>
      ThirdPartyResourcesCreate (Kclient k)
           \<lparr> ThirdPartyResource.ObjectMeta =
               \<lparr> ObjectMeta.Name = ''kong-cluster.enterprises.upmc.com'', Labels = Map.empty \<rparr>,
             Versions = [\<lparr> APIVersion.Name = ''v1'' \<rparr>],
             Description = ''Managed kong clusters'' \<rparr> m1 = ((created, cerr), m2)"
  have lit: "kongThirdPartyResource =
           \<lparr> ThirdPartyResource.ObjectMeta =
               \<lparr> ObjectMeta.Name = ''kong-cluster.enterprises.upmc.com'', Labels = Map.empty \<rparr>,
             Versions = [\<lparr> APIVersion.Name = ''v1'' \<rparr>],
             Description = ''Managed kong clusters'' \<rparr>"
    by (simp add: kongThirdPartyResource_def tprName_def)
  from h have g: "ThirdPartyResourcesGet (Kclient k) tprName m = ((t, Some e), m1)"
    and nf: "IsNotFound e"
    and c: "ThirdPartyResourcesCreate (Kclient k) kongThirdPartyResource m1 = ((created, cerr), m2)"
    by (simp_all add: lit)
  have run: "fst (CreateKubernetesThirdPartyResource k m) =
        (case cerr of None \<Rightarrow> Returned None | Some e' \<Rightarrow> Panicked (PanicError e')) \<and>
      fst (snd (CreateKubernetesThirdPartyResource k m)) = m2 \<and>
      calls (snd (snd (CreateKubernetesThirdPartyResource k m))) =
        [TprGet tprName, TprCreate kongThirdPartyResource]"
    using g nf c by (cases cerr) (simp_all add: CreateKubernetesThirdPartyResource_def)
  from run show "fst (CreateKubernetesThirdPartyResource k m) =
        (case cerr of None \<Rightarrow> Returned None | Some e' \<Rightarrow> Panicked (PanicError e'))"
    by simp
  from run show "fst (snd (CreateKubernetesThirdPartyResource k m)) = m2"
    by simp
  from run show "calls (snd (snd (CreateKubernetesThirdPartyResource k m))) =
        [TprGet ''kong-cluster.enterprises.upmc.com'',
         TprCreate
           \<lparr> ThirdPartyResource.ObjectMeta =
               \<lparr> ObjectMeta.Name = ''kong-cluster.enterprises.upmc.com'', Labels = Map.empty \<rparr>,
             Versions = [\<lparr> APIVersion.Name = ''v1'' \<rparr>],
             Description = ''Managed kong clusters'' \<rparr>]"
    by (simp add: lit tprName_def)
next
  fix t m1
  assume g: "ThirdPartyResourcesGet (Kclient k) tprName m = ((Some t, None), m1)"
  then show "fst (CreateKubernetesThirdPartyResource k m) = Returned None"
    by (simp add: CreateKubernetesThirdPartyResource_def)
  from g show "fst (snd (CreateKubernetesThirdPartyResource k m)) = m1"
    by (simp add: CreateKubernetesThirdPartyResource_def)
  from g show "calls (snd (snd (CreateKubernetesThirdPartyResource k m))) =
        [TprGet ''kong-cluster.enterprises.upmc.com'']"
    by (simp add: CreateKubernetesThirdPartyResource_def tprName_def)
qed

theorem CreateKubernetesThirdPartyResource_registers_witness:
  "ThirdPartyResourcesGet (Kclient (operator emptyCluster)) tprName machine0 =
     ((Some emptyThirdPartyResource, Some (NotFound tprName)), machine0) \<and>
   IsNotFound (NotFound tprName) \<and>
   ThirdPartyResourcesCreate (Kclient (operator emptyCluster)) kongThirdPartyResource machine0 =
     ((Some kongThirdPartyResource, None), machine0) \<and>
   fst (CreateKubernetesThirdPartyResource (operator emptyCluster) machine0) = Returned None \<and>
   fst (snd (CreateKubernetesThirdPartyResource (operator emptyCluster) machine0)) = machine0 \<and>
   calls (snd (snd (CreateKubernetesThirdPartyResource (operator emptyCluster) machine0))) =
     [TprGet ''kong-cluster.enterprises.upmc.com'',
      TprCreate
        \<lparr> ThirdPartyResource.ObjectMeta =
               \<lparr> ObjectMeta.Name = ''kong-cluster.enterprises.upmc.com'', Labels = Map.empty \<rparr>,
             Versions = [\<lparr> APIVersion.Name = ''v1'' \<rparr>],
             Description = ''Managed kong clusters'' \<rparr>] \<and>
   ThirdPartyResourcesGet (Kclient (operator registeredCluster)) tprName machine0 =
     ((Some kongThirdPartyResource, None), machine0) \<and>
   fst (CreateKubernetesThirdPartyResource (operator registeredCluster) machine0) = Returned None \<and>
   fst (snd (CreateKubernetesThirdPartyResource (operator registeredCluster) machine0)) = machine0 \<and>
   calls (snd (snd (CreateKubernetesThirdPartyResource (operator registeredCluster) machine0))) =
     [TprGet ''kong-cluster.enterprises.upmc.com'']"
proof -
  have lit: "kongThirdPartyResource =
           \<lparr> ThirdPartyResource.ObjectMeta =
               \<lparr> ObjectMeta.Name = ''kong-cluster.enterprises.upmc.com'', Labels = Map.empty \<rparr>,
             Versions = [\<lparr> APIVersion.Name = ''v1'' \<rparr>],
             Description = ''Managed kong clusters'' \<rparr>"
    by (simp add: kongThirdPartyResource_def tprName_def)
  have g1: "ThirdPartyResourcesGet (Kclient (operator emptyCluster)) tprName machine0 =
      ((Some emptyThirdPartyResource, Some (NotFound tprName)), machine0) \<and>
      IsNotFound (NotFound tprName)"
    by (simp add: operator_def emptyCluster_def)
  have c1: "ThirdPartyResourcesCreate (Kclient (operator emptyCluster)) r machine0 =
      ((Some r, None), machine0)" for r
    by (simp add: operator_def emptyCluster_def)
  have g2: "ThirdPartyResourcesGet (Kclient (operator registeredCluster)) tprName machine0 =
      ((Some kongThirdPartyResource, None), machine0)"
    by (simp add: operator_def registeredCluster_def)
  from CreateKubernetesThirdPartyResource_registers [of "operator emptyCluster" machine0] g1
    c1 [of "\<lparr> ThirdPartyResource.ObjectMeta =
               \<lparr> ObjectMeta.Name = ''kong-cluster.enterprises.upmc.com'', Labels = Map.empty \<rparr>,
             Versions = [\<lparr> APIVersion.Name = ''v1'' \<rparr>],
             Description = ''Managed kong clusters'' \<rparr>"]
  have a: "fst (CreateKubernetesThirdPartyResource (operator emptyCluster) machine0) =
        (case None of None \<Rightarrow> Returned None | Some e' \<Rightarrow> Panicked (PanicError e')) \<and>
      fst (snd (CreateKubernetesThirdPartyResource (operator emptyCluster) machine0)) = machine0 \<and>
      calls (snd (snd (CreateKubernetesThirdPartyResource (operator emptyCluster) machine0))) =
     [TprGet ''kong-cluster.enterprises.upmc.com'',
      TprCreate
        \<lparr> ThirdPartyResource.ObjectMeta =
               \<lparr> ObjectMeta.Name = ''kong-cluster.enterprises.upmc.com'', Labels = Map.empty \<rparr>,
             Versions = [\<lparr> APIVersion.Name = ''v1'' \<rparr>],
             Description = ''Managed kong clusters'' \<rparr>]"
    by blast
  from CreateKubernetesThirdPartyResource_registers [of "operator registeredCluster" machine0] g2
  have b: "fst (CreateKubernetesThirdPartyResource (operator registeredCluster) machine0) = Returned None \<and>
      fst (snd (CreateKubernetesThirdPartyResource (operator registeredCluster) machine0)) = machine0 \<and>
      calls (snd (snd (CreateKubernetesThirdPartyResource (operator registeredCluster) machine0))) =
        [TprGet ''kong-cluster.enterprises.upmc.com'']"
    by blast
  from g1 g2 a b c1 [of kongThirdPartyResource] show ?thesis by simp
qed

section \<open>GetKongClusters\<close>

lemma after_attempts_Suc:
  "after_attempts k (Suc n) s =
     (fst (fst (attempt k (after_attempts k n s))), snd (attempt k (after_attempts k n s)))"
  by (induction n arbitrary: s) simp_all

lemma attempt_error_Suc:
  "attempt_error k s (Suc j) = attempt_error k (fst (fst (attempt k s)), snd (attempt k s)) j"
  by (simp add: attempt_error_def)

lemma retries_shift:
  "concat (map (\<lambda>j. retry_events (attempt_error k s j)) [0..<Suc n]) =
     retry_events (attempt_error k s 0) @
     concat (map (\<lambda>j. retry_events
       (attempt_error k (fst (fst (attempt k s)), snd (attempt k s)) j)) [0..<n])"
proof -
  have "[0..<Suc n] = 0 # map Suc [0..<n]"
    by (simp add: upt_conv_Cons map_Suc_upt del: upt_Suc)
  then show ?thesis
    by (simp add: attempt_error_Suc comp_def del: upt_Suc)
qed

lemma loop_returns:
  assumes "\<forall>j<n. attempt_error k (l, m) j \<noteq> None" and "attempt_error k (l, m) n = None"
  shows "GetKongClusters_loop k l m tr =
     Some ((KongClusterList.Items (fst (after_attempts k (Suc n) (l, m))), None),
           snd (after_attempts k (Suc n) (l, m)),
           tr @ concat (map (\<lambda>j. retry_events (attempt_error k (l, m) j)) [0..<n]) @
             [Call (RestGet ''KongClusters'')])"
  using assms
proof (induction n arbitrary: l m tr)
  case 0
  obtain l' err m1 where f: "GetResourceInto (TprClient k) ''KongClusters'' l m = ((l', err), m1)"
    by (metis prod.exhaust)
  with 0(2) have e: "err = None" by (simp add: attempt_error_def attempt_def)
  show ?case
    by (subst GetKongClusters_loop.simps) (simp add: f e attempt_def)
next
  case (Suc n)
  obtain l' err m1 where f: "GetResourceInto (TprClient k) ''KongClusters'' l m = ((l', err), m1)"
    by (metis prod.exhaust)
  from Suc.prems(1) have "attempt_error k (l, m) 0 \<noteq> None" by blast
  with f obtain e where e: "err = Some e" by (auto simp: attempt_error_def attempt_def)
  have nxt: "(fst (fst (attempt k (l, m))), snd (attempt k (l, m))) = (l', m1)"
    using f by (simp add: attempt_def)
  have a: "\<forall>j<n. attempt_error k (l', m1) j \<noteq> None"
    using Suc.prems(1) by (auto simp: attempt_error_Suc nxt)
  have b: "attempt_error k (l', m1) n = None"
    using Suc.prems(2) by (simp add: attempt_error_Suc nxt)
  have e0: "retry_events (attempt_error k (l, m) 0) =
      [Call (RestGet ''KongClusters''), Log (Error [S ''error getting kong clusters'']),
       Log (Error [E e]), Sleep 5]"
    using f e by (simp add: retry_events_def attempt_error_def attempt_def)
  have aa: "after_attempts k (Suc (Suc n)) (l, m) = after_attempts k (Suc n) (l', m1)"
    using nxt by simp
  show ?case
    apply (subst GetKongClusters_loop.simps)
    apply (simp only: f e prod.case option.case)
    apply (subst Suc.IH [OF a b])
    apply (simp only: retries_shift nxt e0 aa)
    apply simp
    done
qed

lemma loop_returned:
  "GetKongClusters_loop k l m tr = Some r \<Longrightarrow>
   \<exists>n. (\<forall>j<n. attempt_error k (l, m) j \<noteq> None) \<and> attempt_error k (l, m) n = None"
proof (induction rule: GetKongClusters_loop.raw_induct [rotated 1, consumes 1])
  case (1 loop k l m tr r)
  obtain l' err m1 where f: "GetResourceInto (TprClient k) ''KongClusters'' l m = ((l', err), m1)"
    by (metis prod.exhaust)
  have nxt: "(fst (fst (attempt k (l, m))), snd (attempt k (l, m))) = (l', m1)"
    using f by (simp add: attempt_def)
  show ?case
  proof (cases err)
    case None
    with f have "attempt_error k (l, m) 0 = None"
      by (simp add: attempt_error_def attempt_def)
    then show ?thesis by (intro exI[of _ 0]) simp
  next
    case (Some e)
    with 1(2) f have "loop k l' m1 (tr @ [Call (RestGet ''KongClusters''),
        Log (Error [S ''error getting kong clusters'']), Log (Error [E e]), Sleep 5]) = Some r"
      by simp
    from 1(1) [OF this] obtain n where
      n: "\<forall>j<n. attempt_error k (l', m1) j \<noteq> None" "attempt_error k (l', m1) n = None"
      by blast
    have z: "attempt_error k (l, m) 0 \<noteq> None"
      using f Some by (simp add: attempt_error_def attempt_def)
    have "\<forall>j<Suc n. attempt_error k (l, m) j \<noteq> None"
    proof (intro allI impI)
      fix j assume "j < Suc n"
      then show "attempt_error k (l, m) j \<noteq> None"
        using z n(1) by (cases j) (auto simp: attempt_error_Suc nxt)
    qed
    moreover have "attempt_error k (l, m) (Suc n) = None"
      using n(2) by (simp add: attempt_error_Suc nxt)
    ultimately show ?thesis by blast
  qed
qed

text \<open>
  C9. \<^verbatim>\<open>GetKongClusters\<close> returns exactly when some fetch succeeds. If the first \<open>n\<close>
  fetches fail and the next one succeeds, it returns after that fetch: the error is
  nil, the list is the items the successful fetch left in \<^verbatim>\<open>kongList\<close>, and the
  trace is, for each failed fetch, the request, two error lines and a sleep of five
  seconds, and then the last request. If every fetch fails it never returns.
\<close>

theorem GetKongClusters_retries_until_success:
  "GetKongClusters k m = Some r \<longleftrightarrow>
     (\<exists>n. (\<forall>j<n. attempt_error k (first_fetch m) j \<noteq> None) \<and>
          attempt_error k (first_fetch m) n = None \<and>
          r = ((KongClusterList.Items (fst (after_attempts k (Suc n) (first_fetch m))), None),
               snd (after_attempts k (Suc n) (first_fetch m)),
               concat (map (\<lambda>j. retry_events (attempt_error k (first_fetch m) j)) [0..<n]) @
                 [Call (RestGet ''KongClusters'')]))"
proof
  assume r: "GetKongClusters k m = Some r"
  then obtain n where n: "\<forall>j<n. attempt_error k (first_fetch m) j \<noteq> None"
      "attempt_error k (first_fetch m) n = None"
    unfolding GetKongClusters_def first_fetch_def by (blast dest: loop_returned)
  from loop_returns [OF n [unfolded first_fetch_def], of "[]"] r
  have "r = ((KongClusterList.Items (fst (after_attempts k (Suc n) (first_fetch m))), None),
               snd (after_attempts k (Suc n) (first_fetch m)),
               concat (map (\<lambda>j. retry_events (attempt_error k (first_fetch m) j)) [0..<n]) @
                 [Call (RestGet ''KongClusters'')])"
    by (simp add: GetKongClusters_def first_fetch_def)
  with n show "\<exists>n. (\<forall>j<n. attempt_error k (first_fetch m) j \<noteq> None) \<and>
          attempt_error k (first_fetch m) n = None \<and>
          r = ((KongClusterList.Items (fst (after_attempts k (Suc n) (first_fetch m))), None),
               snd (after_attempts k (Suc n) (first_fetch m)),
               concat (map (\<lambda>j. retry_events (attempt_error k (first_fetch m) j)) [0..<n]) @
                 [Call (RestGet ''KongClusters'')])"
    by blast
next
  assume "\<exists>n. (\<forall>j<n. attempt_error k (first_fetch m) j \<noteq> None) \<and>
          attempt_error k (first_fetch m) n = None \<and>
          r = ((KongClusterList.Items (fst (after_attempts k (Suc n) (first_fetch m))), None),
               snd (after_attempts k (Suc n) (first_fetch m)),
               concat (map (\<lambda>j. retry_events (attempt_error k (first_fetch m) j)) [0..<n]) @
                 [Call (RestGet ''KongClusters'')])"
  then obtain n where n: "\<forall>j<n. attempt_error k (first_fetch m) j \<noteq> None"
      "attempt_error k (first_fetch m) n = None"
    and r: "r = ((KongClusterList.Items (fst (after_attempts k (Suc n) (first_fetch m))), None),
               snd (after_attempts k (Suc n) (first_fetch m)),
               concat (map (\<lambda>j. retry_events (attempt_error k (first_fetch m) j)) [0..<n]) @
                 [Call (RestGet ''KongClusters'')])"
    by blast
  from loop_returns [OF n [unfolded first_fetch_def], of "[]"] r
  show "GetKongClusters k m = Some r"
    by (simp add: GetKongClusters_def first_fetch_def)
qed

theorem GetKongClusters_retries_until_success_witness:
  "GetKongClusters flakyOperator \<lparr> heap = [], cluster = 0 \<rparr> =
     Some ((twoClusters, None), \<lparr> heap = [], cluster = 3 \<rparr>,
       [Call (RestGet ''KongClusters''),
        Log (Error [S ''error getting kong clusters'']),
        Log (Error [E (OtherError ''connection refused'')]),
        Sleep 5,
        Call (RestGet ''KongClusters''),
        Log (Error [S ''error getting kong clusters'']),
        Log (Error [E (OtherError ''connection refused'')]),
        Sleep 5,
        Call (RestGet ''KongClusters'')])"
proof -
  have e0: "attempt_error flakyOperator (first_fetch \<lparr> heap = [], cluster = 0 \<rparr>) 0 =
      Some (OtherError ''connection refused'')"
    by (simp add: attempt_error_def attempt_def flakyOperator_def flakyRest_def first_fetch_def)
  have e1: "attempt_error flakyOperator (first_fetch \<lparr> heap = [], cluster = 0 \<rparr>) (Suc 0) =
      Some (OtherError ''connection refused'')"
    by (simp add: attempt_error_def attempt_def flakyOperator_def flakyRest_def first_fetch_def)
  have e2: "attempt_error flakyOperator (first_fetch \<lparr> heap = [], cluster = 0 \<rparr>) (Suc (Suc 0)) = None"
    by (simp add: attempt_error_def attempt_def flakyOperator_def flakyRest_def first_fetch_def)
  have a3: "after_attempts flakyOperator (Suc (Suc (Suc 0))) (first_fetch \<lparr> heap = [], cluster = 0 \<rparr>) =
      (\<lparr> KongClusterList.Items = twoClusters \<rparr>, \<lparr> heap = [], cluster = 3 \<rparr>)"
    by (simp add: attempt_def flakyOperator_def flakyRest_def first_fetch_def)
  have all: "\<forall>j<Suc (Suc 0). attempt_error flakyOperator (first_fetch \<lparr> heap = [], cluster = 0 \<rparr>) j \<noteq> None"
    using e0 e1 by (simp add: less_Suc_eq)
  have up: "[0..<Suc (Suc 0)] = [0, Suc 0]" by (simp add: upt_rec)
  show ?thesis
  proof (rule iffD2 [OF GetKongClusters_retries_until_success], rule exI [of _ "Suc (Suc 0)"],
      intro conjI)
    show "\<forall>j<Suc (Suc 0).
        attempt_error flakyOperator (first_fetch \<lparr> heap = [], cluster = 0 \<rparr>) j \<noteq> None"
      by (rule all)
    show "attempt_error flakyOperator (first_fetch \<lparr> heap = [], cluster = 0 \<rparr>) (Suc (Suc 0)) = None"
      by (rule e2)
  qed (simp only: a3 up, simp add: e0 e1 retry_events_def)
qed

section \<open>The error channel\<close>

lemma handler_keeps_errc: "errc (snd (ResourceEventHandlerFuncs n ch)) = errc ch"
  by (cases n)
    (simp_all add: ResourceEventHandlerFuncs_def createAddHandler_def updateHandler_def
      createDeleteHandler_def split: iface.splits)

text \<open>
  C10. Whatever the informer delivers (notifications with a payload of any dynamic
  type, failures of the transport), and whether or not a handler panics, nothing is
  ever sent on the error channel.
\<close>

theorem MonitorKongEvents_errc_empty: "errc (snd (MonitorKongEvents ns)) = []"
proof -
  have keep: "errc (snd (controller_Run ns ch)) = errc ch" for ch
  proof (induction ns arbitrary: ch)
    case Nil
    show ?case by simp
  next
    case (Cons n ns)
    obtain p ch' where h: "ResourceEventHandlerFuncs n ch = (p, ch')"
      by (cases "ResourceEventHandlerFuncs n ch")
    with handler_keeps_errc [of n ch] have e: "errc ch' = errc ch" by simp
    show ?case
    proof (cases p)
      case None
      with h e Cons.IH [of ch'] show ?thesis by simp
    next
      case (Some q)
      with h e show ?thesis by simp
    qed
  qed
  show ?thesis
    unfolding MonitorKongEvents_def by (simp add: keep)
qed

end
